theory Spec2Isabelle
  imports Complex_Main "HOL-Library.Monad_Syntax"
begin

section \<open>Flows and the environment-derived constants\<close>

text \<open>
  \<^verbatim>\<open>class Flow(Flag)\<close> of \<^verbatim>\<open>testsuite/single_node_performance.py\<close>: seven one-bit
  members numbered by \<^verbatim>\<open>auto()\<close>. A value of the flag type (a member, a union of
  members, or \<^verbatim>\<open>Flow(0)\<close>) is its integer bit mask.
\<close>

datatype Flow =
  LAND_BLOCKING | CONTINUOUS | REPRESENTATIVE | MAINNET | MAINNET_LARGE_DB
  | AGG_V2 | RESOURCE_GROUPS

fun flow_value :: "Flow \<Rightarrow> nat" where
  "flow_value LAND_BLOCKING = 1"
| "flow_value CONTINUOUS = 2"
| "flow_value REPRESENTATIVE = 4"
| "flow_value MAINNET = 8"
| "flow_value MAINNET_LARGE_DB = 16"
| "flow_value AGG_V2 = 32"
| "flow_value RESOURCE_GROUPS = 64"

text \<open>\<^verbatim>\<open>a | b\<close> on flag values.\<close>

definition flow_union :: "nat \<Rightarrow> nat \<Rightarrow> nat" where
  "flow_union a b = or a b"

text \<open>
  \<^verbatim>\<open>other in self\<close> of \<^verbatim>\<open>enum.Flag\<close>:
  \<^verbatim>\<open>other._value_ & self._value_ == other._value_\<close>.
\<close>

definition flow_in :: "nat \<Rightarrow> nat \<Rightarrow> bool" where
  "flow_in other self = (and other self = other)"

definition LAND_BLOCKING_AND_C :: nat where
  "LAND_BLOCKING_AND_C = flow_union (flow_value LAND_BLOCKING) (flow_value CONTINUOUS)"

text \<open>
  The module-level constants read from the process environment, gathered in one record.
  \<^verbatim>\<open>SELECTED_FLOW = Flow[os.environ.get("FLOW", ...)]\<close> looks a member up by name, so
  it is always one of the seven members. \<^verbatim>\<open>SKIP_NATIVE\<close> is true unless
  \<^verbatim>\<open>DISABLE_FA_APT\<close> is set. The build and database flag strings only enter the
  command lines and are left out.
\<close>

record Env =
  SELECTED_FLOW :: Flow
  SOURCE :: string
  MAX_BLOCK_SIZE :: int
  NUMBER_OF_EXECUTION_THREADS :: int
  EXECUTION_ONLY_NUMBER_OF_THREADS :: "int list"
  SKIP_NATIVE :: bool
  SKIP_MOVE_E2E :: bool

definition IS_MAINNET :: "Env \<Rightarrow> bool" where
  "IS_MAINNET env = (SELECTED_FLOW env \<in> set [MAINNET, MAINNET_LARGE_DB])"

definition NOISE_LOWER_LIMIT :: "Env \<Rightarrow> real" where
  "NOISE_LOWER_LIMIT env = (if IS_MAINNET env then 0.98 else 0.8)"

definition NOISE_LOWER_LIMIT_WARN :: real where
  "NOISE_LOWER_LIMIT_WARN = 0.9"

definition NOISE_UPPER_LIMIT :: real where
  "NOISE_UPPER_LIMIT = 1.15"

definition NOISE_UPPER_LIMIT_WARN :: real where
  "NOISE_UPPER_LIMIT_WARN = 1.05"

definition SKIP_PERF_IMPROVEMENT_NOTICE :: "Env \<Rightarrow> bool" where
  "SKIP_PERF_IMPROVEMENT_NOTICE env = IS_MAINNET env"

section \<open>Test configurations, calibration data and criteria\<close>

text \<open>
  Python floats are modelled by the reals and Python integers by \<^typ>\<open>int\<close>: the
  thresholds are the exact values of the source's arithmetic expressions, without the
  rounding of IEEE doubles.
\<close>

record RunGroupKey =
  transaction_type :: string
  module_working_set_size :: int
  executor_type :: string

text \<open>
  \<^verbatim>\<open>RunGroupConfig\<close>. The field \<^verbatim>\<open>expected_tps\<close> is \<open>override_tps\<close> here, the
  name \<open>expected_tps\<close> being kept for \<^verbatim>\<open>Criteria\<close>. \<^verbatim>\<open>key_extra\<close> only shapes the
  command line and is left out.
\<close>

record RunGroupConfig =
  key :: RunGroupKey
  included_in :: nat
  override_tps :: "real option"
  waived :: bool

record CalibrationData =
  calibrated_tps :: real
  count :: int
  min_ratio :: real
  max_ratio :: real

record Criteria =
  expected_tps :: real
  min_tps :: real
  min_warn_tps :: real
  max_tps :: real
  max_warn_tps :: real

datatype py_exception =
  AssertionError | IndexError | ValueError | ZeroDivisionError | OverflowError
  | CmdExecutionError | UnsupportedExecutor

text \<open>
  \<^verbatim>\<open>pow(x, y)\<close> on floats. For a base \<open>x \<ge> 0\<close> it is the real power, with
  \<^verbatim>\<open>pow(0.0, 0.0) == 1.0\<close>. For a negative base and the exponent \<open>0.8\<close> Python
  returns a complex number; the real-valued model says nothing useful there, and the
  theorems that depend on the value of the power assume a non-negative base.
\<close>

definition py_pow :: "real \<Rightarrow> real \<Rightarrow> real" where
  "py_pow x y = (if x = 0 \<and> y = 0 then 1 else x powr y)"

text \<open>The calibrated branch of the threshold computation (source lines 618 to 640).\<close>

definition calibrated_criteria :: "CalibrationData \<Rightarrow> py_exception + Criteria" where
  "calibrated_criteria cur_calibration =
     (if count cur_calibration = 0 then Inl ZeroDivisionError
      else Inr \<lparr>
        expected_tps = calibrated_tps cur_calibration,
        min_tps = calibrated_tps cur_calibration
          * (1 - (1 - min_ratio cur_calibration)
                 * (1 + 10 / real_of_int (count cur_calibration))
               - 1 / real_of_int (count cur_calibration)),
        min_warn_tps = calibrated_tps cur_calibration
          * py_pow (min_ratio cur_calibration) 0.8,
        max_tps = calibrated_tps cur_calibration
          * (1 + (max_ratio cur_calibration - 1)
                 * (1 + 10 / real_of_int (count cur_calibration))
               + 1 / real_of_int (count cur_calibration)),
        max_warn_tps = calibrated_tps cur_calibration
          * py_pow (max_ratio cur_calibration) 0.8 \<rparr>)"

text \<open>
  Source lines 608 to 640: the override branch when \<^verbatim>\<open>test.expected_tps is not None\<close>,
  otherwise the assertion that the key is in the table, and the calibrated branch.
\<close>

definition compute_criteria ::
  "Env \<Rightarrow> RunGroupConfig \<Rightarrow> (RunGroupKey \<rightharpoonup> CalibrationData) \<Rightarrow> py_exception + Criteria"
where
  "compute_criteria env test calibrated_expected_tps =
     (case override_tps test of
        Some e \<Rightarrow> Inr \<lparr>
          expected_tps = e,
          min_tps = e * NOISE_LOWER_LIMIT env,
          min_warn_tps = e * NOISE_LOWER_LIMIT_WARN,
          max_tps = e * NOISE_UPPER_LIMIT,
          max_warn_tps = e * NOISE_UPPER_LIMIT_WARN \<rparr>
      | None \<Rightarrow>
          (case calibrated_expected_tps (key test) of
             None \<Rightarrow> Inl AssertionError
           | Some cur_calibration \<Rightarrow> calibrated_criteria cur_calibration))"

text \<open>
  The two guards at the head of the test loop (source lines 602 to 606): a test is
  passed over when the selected flow is not in \<^verbatim>\<open>included_in\<close>, and also when
  \<^verbatim>\<open>SKIP_NATIVE\<close> holds and the executor type is \<^verbatim>\<open>"native"\<close>. \<open>executed\<close> says
  that the loop reaches its body for the test.
\<close>

definition executed :: "Env \<Rightarrow> RunGroupConfig \<Rightarrow> bool" where
  "executed env test =
     (if \<not> flow_in (flow_value (SELECTED_FLOW env)) (included_in test) then False
      else if SKIP_NATIVE env \<and> executor_type (key test) = ''native'' then False
      else True)"


section \<open>The thresholds in double precision\<close>

text \<open>
  A Python float is an IEEE 754 double: 53 bits of precision, and every conversion and
  operation rounded to the nearest double, ties to the even one. \<open>round_double x\<close> is
  the double nearest to the real \<open>x\<close>: \<open>scale_mantissa\<close> brings the magnitude into
  the range from \<open>2^52\<close> to \<open>2^53\<close> by halving or doubling it (the doubling stops at
  the exponent \<open>-1074\<close> of the subnormal numbers), and the scaled magnitude is rounded to
  an integer. The 2200 steps allowed reach every magnitude that rounds to a finite
  double. The definitions of the section before take the operations of the source in
  the reals, which leaves the rounding out; the definitions of this section round each of
  them.
\<close>

definition round_half_even :: "real \<Rightarrow> int" where
  "round_half_even x =
     (if x - of_int \<lfloor>x\<rfloor> < 1 / 2 then \<lfloor>x\<rfloor>
      else if 1 / 2 < x - of_int \<lfloor>x\<rfloor> then \<lfloor>x\<rfloor> + 1
      else if even \<lfloor>x\<rfloor> then \<lfloor>x\<rfloor>
      else \<lfloor>x\<rfloor> + 1)"

fun scale_mantissa :: "nat \<Rightarrow> real \<Rightarrow> int \<Rightarrow> real \<times> int" where
  "scale_mantissa 0 m e = (m, e)"
| "scale_mantissa (Suc n) m e =
     (if 9007199254740992 \<le> m then scale_mantissa n (m / 2) (e + 1)
      else if m < 4503599627370496 \<and> - 1074 < e then scale_mantissa n (m * 2) (e - 1)
      else (m, e))"

definition pow2 :: "int \<Rightarrow> real" where
  "pow2 e = (if 0 \<le> e then 2 ^ nat e else 1 / 2 ^ nat (- e))"

definition round_double :: "real \<Rightarrow> real" where
  "round_double x =
     (if x = 0 then 0
      else
        (case scale_mantissa 2200 \<bar>x\<bar> 0 of
           (m, e) \<Rightarrow> (if x < 0 then - 1 else 1) * real_of_int (round_half_even m) * pow2 e))"

text \<open>
  The largest double is \<open>2^1024 - 2^971\<close>; a real number rounds to a finite double when
  its magnitude is below \<open>2^1024 - 2^970\<close>, half a step above the largest double, and to
  an infinity otherwise.
\<close>

definition finite_double :: "real \<Rightarrow> bool" where
  "finite_double x = (\<bar>x\<bar> < 2 ^ 1024 - 2 ^ 970)"

text \<open>
  The result of an operation on two finite doubles whose exact value is \<open>x\<close>. \<open>None\<close>
  is an infinity. In the formulas of the thresholds an infinity is never turned back
  into a finite number: whatever is computed from it is an infinity again or not a
  number.
\<close>

definition float_result :: "real \<Rightarrow> real option" where
  "float_result x = (if finite_double x then Some (round_double x) else None)"

text \<open>
  The operators \<^verbatim>\<open>+\<close>, \<^verbatim>\<open>-\<close>, \<^verbatim>\<open>*\<close> and \<^verbatim>\<open>/\<close> on two floats (the division
  for a divisor that is not zero), and a decimal literal of the source.
\<close>

definition float_add :: "real \<Rightarrow> real \<Rightarrow> real option" where
  "float_add x y = float_result (x + y)"

definition float_sub :: "real \<Rightarrow> real \<Rightarrow> real option" where
  "float_sub x y = float_result (x - y)"

definition float_mul :: "real \<Rightarrow> real \<Rightarrow> real option" where
  "float_mul x y = float_result (x * y)"

definition float_div :: "real \<Rightarrow> real \<Rightarrow> real option" where
  "float_div x y = float_result (x / y)"

definition float_literal :: "real \<Rightarrow> real" where
  "float_literal d = round_double d"

text \<open>
  The conversion of an \<^verbatim>\<open>int\<close> operand to a float, which raises \<^verbatim>\<open>OverflowError\<close> for
  an integer too large for a double, and the conversion of a number that is an \<^verbatim>\<open>int\<close>
  or already a float.
\<close>

definition float_of_int :: "int \<Rightarrow> py_exception + real" where
  "float_of_int n =
     (if finite_double (real_of_int n) then Inr (round_double (real_of_int n))
      else Inl OverflowError)"

definition float_of_number :: "real \<Rightarrow> py_exception + real" where
  "float_of_number x = (if finite_double x then Inr (round_double x) else Inl OverflowError)"

text \<open>
  The calibrated branch (source lines 618 to 640) in this arithmetic, operation by
  operation in the order in which Python evaluates them. The first operation that can
  fail is \<^verbatim>\<open>10.0 / cur_calibration.count\<close>: it converts the count to a float and then
  refuses a divisor of zero. \<^verbatim>\<open>pow(x, 0.8)\<close> calls the power function of the C library
  when the base is not negative; IEEE 754 does not fix its rounding, so it is the
  parameter \<open>libm_pow\<close>, from doubles to finite doubles. For a negative base Python
  returns a complex number and raises nothing. The result \<open>Inr None\<close> is a
  \<^verbatim>\<open>Criteria\<close> with a field that is not a finite float: an infinity, not a number, or a
  complex number.
\<close>

definition calibrated_criteria_double ::
  "(real \<Rightarrow> real \<Rightarrow> real) \<Rightarrow> CalibrationData \<Rightarrow> py_exception + Criteria option"
where
  "calibrated_criteria_double libm_pow cur_calibration =
     (case float_of_int (count cur_calibration) of
        Inl e \<Rightarrow> Inl e
      | Inr n \<Rightarrow>
          if n = 0 then Inl ZeroDivisionError
          else if min_ratio cur_calibration < 0 \<or> max_ratio cur_calibration < 0 then Inr None
          else Inr (do {
            lower_gap \<leftarrow> float_sub 1 (min_ratio cur_calibration);
            lower_tenth \<leftarrow> float_div 10 n;
            lower_widening \<leftarrow> float_add 1 lower_tenth;
            lower_spread \<leftarrow> float_mul lower_gap lower_widening;
            lower_rest \<leftarrow> float_sub 1 lower_spread;
            lower_share \<leftarrow> float_div 1 n;
            lower_factor \<leftarrow> float_sub lower_rest lower_share;
            lower \<leftarrow> float_mul (calibrated_tps cur_calibration) lower_factor;
            lower_warn \<leftarrow> float_mul (calibrated_tps cur_calibration)
              (libm_pow (min_ratio cur_calibration) (float_literal (8 / 10)));
            upper_gap \<leftarrow> float_sub (max_ratio cur_calibration) 1;
            upper_tenth \<leftarrow> float_div 10 n;
            upper_widening \<leftarrow> float_add 1 upper_tenth;
            upper_spread \<leftarrow> float_mul upper_gap upper_widening;
            upper_rest \<leftarrow> float_add 1 upper_spread;
            upper_share \<leftarrow> float_div 1 n;
            upper_factor \<leftarrow> float_add upper_rest upper_share;
            upper \<leftarrow> float_mul (calibrated_tps cur_calibration) upper_factor;
            upper_warn \<leftarrow> float_mul (calibrated_tps cur_calibration)
              (libm_pow (max_ratio cur_calibration) (float_literal (8 / 10)));
            Some \<lparr> expected_tps = calibrated_tps cur_calibration, min_tps = lower,
                   min_warn_tps = lower_warn, max_tps = upper, max_warn_tps = upper_warn \<rparr>
          }))"

text \<open>
  Source lines 608 to 640 in this arithmetic. The override is an \<^verbatim>\<open>int\<close> or a float:
  the first multiplication converts it to a float, the field \<^verbatim>\<open>expected_tps\<close> keeps it
  as it is. The four multipliers are the doubles of the literals of source lines 66 to
  71.
\<close>

definition compute_criteria_double ::
  "(real \<Rightarrow> real \<Rightarrow> real) \<Rightarrow> Env \<Rightarrow> RunGroupConfig \<Rightarrow> (RunGroupKey \<rightharpoonup> CalibrationData)
     \<Rightarrow> py_exception + Criteria option"
where
  "compute_criteria_double libm_pow env test calibrated_expected_tps =
     (case override_tps test of
        Some e \<Rightarrow>
          (case float_of_number e of
             Inl raised \<Rightarrow> Inl raised
           | Inr f \<Rightarrow> Inr (do {
               lower \<leftarrow> float_mul f (float_literal (NOISE_LOWER_LIMIT env));
               lower_warn \<leftarrow> float_mul f (float_literal NOISE_LOWER_LIMIT_WARN);
               upper \<leftarrow> float_mul f (float_literal NOISE_UPPER_LIMIT);
               upper_warn \<leftarrow> float_mul f (float_literal NOISE_UPPER_LIMIT_WARN);
               Some \<lparr> expected_tps = e, min_tps = lower, min_warn_tps = lower_warn,
                      max_tps = upper, max_warn_tps = upper_warn \<rparr>
             }))
      | None \<Rightarrow>
          (case calibrated_expected_tps (key test) of
             None \<Rightarrow> Inl AssertionError
           | Some cur_calibration \<Rightarrow> calibrated_criteria_double libm_pow cur_calibration))"

section \<open>Classification of a measured throughput\<close>

text \<open>
  The four texts that the classification appends to \<^verbatim>\<open>errors\<close> or \<^verbatim>\<open>warnings\<close>
  (source lines 788, 794, 800 and 809). Each f-string interpolates the measured tps,
  the expected median, the threshold and the key; the constructor keeps these four
  values in that order instead of the formatted characters.
\<close>

datatype notice =
  RegressionDetected real real real RunGroupKey
  | PotentialRegression real real real RunGroupKey
  | PerfImprovementDetected real real real RunGroupKey
  | PotentialPerfImprovement real real real RunGroupKey

text \<open>The two module-level lists \<^verbatim>\<open>errors\<close> and \<^verbatim>\<open>warnings\<close>.\<close>

record Report =
  errors :: "notice list"
  warnings :: "notice list"

text \<open>
  The \<^verbatim>\<open>if\<close>/\<^verbatim>\<open>elif\<close> chain of source lines 787 to 810, on the tps of
  \<^verbatim>\<open>single_node_result\<close>.
\<close>

definition classify :: "Env \<Rightarrow> RunGroupConfig \<Rightarrow> Criteria \<Rightarrow> real \<Rightarrow> Report \<Rightarrow> Report" where
  "classify env test criteria tps rep =
     (if tps < min_tps criteria then
        (let text = RegressionDetected tps (expected_tps criteria) (min_tps criteria) (key test)
         in if \<not> waived test then rep\<lparr>errors := errors rep @ [text]\<rparr>
            else rep\<lparr>warnings := warnings rep @ [text]\<rparr>)
      else if tps < min_warn_tps criteria then
        (let text = PotentialRegression tps (expected_tps criteria) (min_warn_tps criteria) (key test)
         in rep\<lparr>warnings := warnings rep @ [text]\<rparr>)
      else if \<not> SKIP_PERF_IMPROVEMENT_NOTICE env \<and> tps > max_tps criteria then
        (let text = PerfImprovementDetected tps (expected_tps criteria) (max_tps criteria) (key test)
         in if \<not> waived test then rep\<lparr>errors := errors rep @ [text]\<rparr>
            else rep\<lparr>warnings := warnings rep @ [text]\<rparr>)
      else if \<not> SKIP_PERF_IMPROVEMENT_NOTICE env \<and> tps > max_warn_tps criteria then
        (let text = PotentialPerfImprovement tps (expected_tps criteria) (max_warn_tps criteria) (key test)
         in rep\<lparr>warnings := warnings rep @ [text]\<rparr>)
      else rep)"

section \<open>Strings, and the regular expressions of the result extractor\<close>

text \<open>\<^verbatim>\<open>s.startswith(p)\<close>, and the rest of \<open>s\<close> after a leading \<open>p\<close>.\<close>

fun strip_prefix :: "string \<Rightarrow> string \<Rightarrow> string option" where
  "strip_prefix [] s = Some s"
| "strip_prefix (p # ps) [] = None"
| "strip_prefix (p # ps) (c # cs) = (if p = c then strip_prefix ps cs else None)"

text \<open>\<^verbatim>\<open>p in s\<close> on strings.\<close>

fun contains :: "string \<Rightarrow> string \<Rightarrow> bool" where
  "contains p [] = (p = [])"
| "contains p (c # cs) = (strip_prefix p (c # cs) \<noteq> None \<or> contains p cs)"

text \<open>The characters matched by \<^verbatim>\<open>\d\<close>, on ASCII text.\<close>

definition is_digit :: "char \<Rightarrow> bool" where
  "is_digit c = (c \<in> set ''0123456789'')"

text \<open>An optional character \<open>x\<close> at the start of \<open>s\<close>: what it matched, and the rest.\<close>

definition opt_char :: "char \<Rightarrow> string \<Rightarrow> string \<times> string" where
  "opt_char x s =
     (case s of
        [] \<Rightarrow> ([], [])
      | c # cs \<Rightarrow> if c = x then ([x], cs) else ([], s))"

text \<open>
  Every pattern of \<^verbatim>\<open>extract_run_results\<close> has the shape
  \<^verbatim>\<open>lead (\-?\d+\.?\d*) trail\<close>, where \<open>lead\<close> and \<open>trail\<close> are literal text
  (the prefixes passed in, \<^verbatim>\<open>"Overall"\<close>, \<^verbatim>\<open>"Overall execution"\<close> and
  \<^verbatim>\<open>"Staged execution: stage N:"\<close>, have no regex metacharacter), \<open>trail\<close> starts
  with a space, and the optional minus sign is present in the storage-fee pattern only
  (\<open>signed\<close>). \<open>match_at\<close> is a match of such a pattern at the start of \<open>s\<close>: the
  captured group and the text left after the match. Taking the digits greedily loses no
  match: \<open>trail\<close> starts with a space, so it cannot match at a position that holds a
  digit, a dot or a minus sign, which is where backtracking would retry it.
\<close>

definition match_at :: "bool \<Rightarrow> string \<Rightarrow> string \<Rightarrow> string \<Rightarrow> (string \<times> string) option" where
  "match_at signed lead trail s =
     (case strip_prefix lead s of
        None \<Rightarrow> None
      | Some r1 \<Rightarrow>
          (case (if signed then opt_char CHR ''-'' r1 else ([], r1)) of
             (sign_part, r2) \<Rightarrow>
               (let ds = takeWhile is_digit r2;
                    r3 = dropWhile is_digit r2
                in if ds = [] then None
                   else
                     (case opt_char CHR ''.'' r3 of
                        (dot_part, r4) \<Rightarrow>
                          (let fs = takeWhile is_digit r4;
                               r5 = dropWhile is_digit r4
                           in case strip_prefix trail r5 of
                                None \<Rightarrow> None
                              | Some rest \<Rightarrow> Some (sign_part @ ds @ dot_part @ fs, rest))))))"

text \<open>
  \<^verbatim>\<open>re.findall(pattern, s)\<close> for a pattern with one group: the captured groups of the
  non-overlapping matches, scanning from the left. After a match the scan resumes where
  the match ended; \<open>skip\<close> counts the characters of a match still to be passed over. A
  match is never empty, so nothing matches at the end of the text.
\<close>

fun findall_from :: "bool \<Rightarrow> string \<Rightarrow> string \<Rightarrow> nat \<Rightarrow> string \<Rightarrow> string list" where
  "findall_from signed lead trail skip [] = []"
| "findall_from signed lead trail skip (c # cs) =
     (if 0 < skip then findall_from signed lead trail (skip - 1) cs
      else
        (case match_at signed lead trail (c # cs) of
           None \<Rightarrow> findall_from signed lead trail 0 cs
         | Some (captured, rest) \<Rightarrow>
             captured # findall_from signed lead trail (length cs - length rest) cs))"

definition findall :: "bool \<Rightarrow> string \<Rightarrow> string \<Rightarrow> string \<Rightarrow> string list" where
  "findall signed lead trail s = findall_from signed lead trail 0 s"

text \<open>
  \<^verbatim>\<open>float(s)\<close> and \<^verbatim>\<open>int(s)\<close> on decimal literals: an optional sign, digits, and for
  \<^verbatim>\<open>float\<close> an optional point and fraction digits, with a digit on at least one side
  of the point. Any other text is a \<^verbatim>\<open>ValueError\<close> here; Python also accepts
  exponents, \<^verbatim>\<open>inf\<close>, \<^verbatim>\<open>nan\<close>, underscores and surrounding blanks, which neither the
  regular expressions above nor the calibration table of the source produce.
\<close>

definition digit_val :: "char \<Rightarrow> nat" where
  "digit_val c = of_char c - 48"

definition digits_val :: "string \<Rightarrow> nat" where
  "digits_val ds = foldl (\<lambda>n c. 10 * n + digit_val c) 0 ds"

definition strip_sign :: "string \<Rightarrow> bool \<times> string" where
  "strip_sign s =
     (case s of
        [] \<Rightarrow> (False, [])
      | c # cs \<Rightarrow> if c = CHR ''-'' then (True, cs) else if c = CHR ''+'' then (False, cs)
                  else (False, s))"

definition py_int :: "string \<Rightarrow> py_exception + int" where
  "py_int s =
     (case strip_sign s of
        (neg, ds) \<Rightarrow>
          if ds \<noteq> [] \<and> list_all is_digit ds
          then Inr (if neg then - int (digits_val ds) else int (digits_val ds))
          else Inl ValueError)"

definition py_float :: "string \<Rightarrow> py_exception + real" where
  "py_float s =
     (case strip_sign s of
        (neg, r) \<Rightarrow>
          (let ip = takeWhile is_digit r;
               r2 = dropWhile is_digit r;
               fs = (case r2 of [] \<Rightarrow> [] | c # cs \<Rightarrow> cs)
           in if (r2 = [] \<or> strip_prefix [CHR ''.''] r2 \<noteq> None) \<and> list_all is_digit fs
                 \<and> (ip \<noteq> [] \<or> fs \<noteq> [])
              then
                (let v = real (digits_val ip) + real (digits_val fs) / 10 ^ length fs
                 in Inr (if neg then - v else v))
              else Inl ValueError))"

text \<open>Sequencing of computations that may raise: the first exception wins.\<close>

fun and_then :: "'e + 'a \<Rightarrow> ('a \<Rightarrow> 'e + 'b) \<Rightarrow> 'e + 'b" where
  "and_then (Inl e) f = Inl e"
| "and_then (Inr v) f = f v"

section \<open>The result extractor\<close>

record RunResults =
  tps :: real
  gps :: real
  effective_gps :: real
  io_gps :: real
  execution_gps :: real
  gpt :: real
  storage_fee_pt :: real
  output_bps :: real
  fraction_in_execution :: real
  fraction_of_execution_in_vm :: real
  fraction_in_commit :: real

text \<open>\<^verbatim>\<open>get_only\<close> (source lines 386 to 388): the assertion, then \<^verbatim>\<open>values[0]\<close>.\<close>

definition get_only :: "'a list \<Rightarrow> py_exception + 'a" where
  "get_only values = (if length values = 1 then Inr (hd values) else Inl AssertionError)"

text \<open>\<^verbatim>\<open>values[-1]\<close>, which raises \<^verbatim>\<open>IndexError\<close> on the empty list.\<close>

definition last_of :: "'a list \<Rightarrow> py_exception + 'a" where
  "last_of values = (if values = [] then Inl IndexError else Inr (last values))"

text \<open>
  \<^verbatim>\<open>float(get_only(re.findall(prefix + " NAME: (...) UNIT", output)))\<close> for the rates,
  and \<^verbatim>\<open>float(re.findall(...)[-1])\<close> for the three fractions.
\<close>

definition only_metric :: "bool \<Rightarrow> string \<Rightarrow> string \<Rightarrow> string \<Rightarrow> py_exception + real" where
  "only_metric signed lead trail output =
     and_then (get_only (findall signed lead trail output)) py_float"

definition last_metric :: "string \<Rightarrow> string \<Rightarrow> string \<Rightarrow> py_exception + real" where
  "last_metric lead trail output =
     and_then (last_of (findall False lead trail output)) py_float"

text \<open>\<^verbatim>\<open>extract_run_results\<close> (source lines 391 to 461), in the source's order of evaluation.\<close>

definition extract_run_results :: "string \<Rightarrow> string \<Rightarrow> bool \<Rightarrow> py_exception + RunResults" where
  "extract_run_results output prefix create_db =
     (if create_db then
        and_then (only_metric False ''Overall TPS: create_db: account creation: '' '' txn/s'' output)
          (\<lambda>v_tps.
        Inr \<lparr> tps = v_tps, gps = 0, effective_gps = 0, io_gps = 0, execution_gps = 0,
              gpt = 0, storage_fee_pt = 0, output_bps = 0, fraction_in_execution = 0,
              fraction_of_execution_in_vm = 0, fraction_in_commit = 0 \<rparr>)
      else
        and_then (only_metric False (prefix @ '' TPS: '') '' txn/s'' output) (\<lambda>v_tps.
        and_then (only_metric False (prefix @ '' GPS: '') '' gas/s'' output) (\<lambda>v_gps.
        and_then (only_metric False (prefix @ '' effectiveGPS: '') '' gas/s'' output) (\<lambda>v_effective_gps.
        and_then (only_metric False (prefix @ '' ioGPS: '') '' gas/s'' output) (\<lambda>v_io_gps.
        and_then (only_metric False (prefix @ '' executionGPS: '') '' gas/s'' output) (\<lambda>v_execution_gps.
        and_then (only_metric False (prefix @ '' GPT: '') '' gas/txn'' output) (\<lambda>v_gpt.
        and_then (only_metric True (prefix @ '' Storage fee: '') '' octas/txn'' output) (\<lambda>v_storage_fee_pt.
        and_then (only_metric False (prefix @ '' output: '') '' bytes/s'' output) (\<lambda>v_output_bps.
        and_then (last_metric (prefix @ '' fraction of total: '') '' in execution'' output)
          (\<lambda>v_fraction_in_execution.
        and_then (last_metric (prefix @ '' fraction of execution '') '' in VM'' output)
          (\<lambda>v_fraction_of_execution_in_vm.
        and_then (last_metric (prefix @ '' fraction of total: '') '' in commit'' output)
          (\<lambda>v_fraction_in_commit.
        Inr \<lparr> tps = v_tps, gps = v_gps, effective_gps = v_effective_gps, io_gps = v_io_gps,
              execution_gps = v_execution_gps, gpt = v_gpt,
              storage_fee_pt = v_storage_fee_pt, output_bps = v_output_bps,
              fraction_in_execution = v_fraction_in_execution,
              fraction_of_execution_in_vm = v_fraction_of_execution_in_vm,
              fraction_in_commit = v_fraction_in_commit \<rparr>))))))))))))"

text \<open>\<^verbatim>\<open>str(i)\<close> for a natural number, and the prefix of stage \<open>i\<close> (source line 689).\<close>

definition digit_char :: "nat \<Rightarrow> char" where
  "digit_char d = ''0123456789'' ! d"

fun str_nat :: "nat \<Rightarrow> string" where
  "str_nat n = (if n < 10 then [digit_char n] else str_nat (n div 10) @ [digit_char (n mod 10)])"

declare str_nat.simps [simp del]

definition stage_prefix :: "nat \<Rightarrow> string" where
  "stage_prefix i = ''Staged execution: stage '' @ str_nat i @ '':''"

text \<open>
  The loop over \<^verbatim>\<open>itertools.count()\<close> of source lines 688 to 693, from stage \<open>i\<close> on:
  it stops at the first stage whose prefix is not in the output, and an extraction
  error of a stage leaves the loop at once. The loop ends because a prefix in the
  output is no longer than the output.
\<close>

function stage_loop :: "string \<Rightarrow> nat \<Rightarrow> py_exception + (nat \<times> RunResults) list" where
  "stage_loop output i =
     (if contains (stage_prefix i) output then
        (case extract_run_results output (stage_prefix i) False of
           Inl e \<Rightarrow> Inl e
         | Inr r \<Rightarrow>
             (case stage_loop output (Suc i) of
                Inl e \<Rightarrow> Inl e
              | Inr later \<Rightarrow> Inr ((i, r) # later)))
      else Inr [])"
  by pat_completeness auto
termination
proof (relation "measure (\<lambda>(output, i). 10 ^ length output - i)")
  show "wf (measure (\<lambda>(output, i). 10 ^ length output - i))"
    by simp
next
  fix out :: string and i :: nat and r :: RunResults
  assume present: "contains (stage_prefix i) out"
  have strip_len: "length p \<le> length s" if "strip_prefix p s \<noteq> None" for p s :: string
    using that by (induction p s rule: strip_prefix.induct) (auto split: if_splits)
  have contains_len: "length p \<le> length s" if "contains p s" for p s :: string
    using that
  proof (induction s)
    case Nil
    then show ?case by simp
  next
    case (Cons c cs)
    then show ?case using strip_len [of p "c # cs"] by auto
  qed
  have digits_bound: "n < 10 ^ length (str_nat n)" for n :: nat
  proof (induction n rule: str_nat.induct)
    case (1 n)
    show ?case
    proof (cases "n < 10")
      case True
      then show ?thesis by (subst str_nat.simps) simp
    next
      case False
      with "1" have "n div 10 < 10 ^ length (str_nat (n div 10))" by simp
      then have "n < 10 * 10 ^ length (str_nat (n div 10))" by linarith
      with False show ?thesis by (subst str_nat.simps) simp
    qed
  qed
  have "length (str_nat i) \<le> length (stage_prefix i)"
    by (simp add: stage_prefix_def)
  also have "\<dots> \<le> length out"
    using present by (rule contains_len)
  finally have "(10::nat) ^ length (str_nat i) \<le> 10 ^ length out"
    by (simp add: power_increasing)
  with digits_bound [of i] have "i < 10 ^ length out"
    by linarith
  then show "((out, Suc i), (out, i)) \<in> measure (\<lambda>(output, i). 10 ^ length output - i)"
    by simp
qed

declare stage_loop.simps [simp del]

section \<open>The calibration table\<close>

definition CALIBRATED_TPS_INDEX :: int where
  "CALIBRATED_TPS_INDEX = - 1"

definition CALIBRATED_COUNT_INDEX :: int where
  "CALIBRATED_COUNT_INDEX = - 4"

definition CALIBRATED_MIN_RATIO_INDEX :: int where
  "CALIBRATED_MIN_RATIO_INDEX = - 3"

definition CALIBRATED_MAX_RATIO_INDEX :: int where
  "CALIBRATED_MAX_RATIO_INDEX = - 2"

definition CALIBRATION_SEPARATOR :: char where
  "CALIBRATION_SEPARATOR = CHR 0x09"

text \<open>\<^verbatim>\<open>parts[i]\<close>: a negative index counts from the end, out of range raises.\<close>

definition py_index :: "'a list \<Rightarrow> int \<Rightarrow> py_exception + 'a" where
  "py_index xs i =
     (if 0 \<le> i \<and> i < int (length xs) then Inr (xs ! nat i)
      else if i < 0 \<and> - int (length xs) \<le> i then Inr (xs ! nat (int (length xs) + i))
      else Inl IndexError)"

text \<open>
  \<^verbatim>\<open>s.split(sep)\<close> for a one-character separator, and \<^verbatim>\<open>s.strip()\<close>, which
  removes the characters that \<^verbatim>\<open>str.isspace\<close> accepts (those with a code point
  below 256 here).
\<close>

fun split_char :: "char \<Rightarrow> string \<Rightarrow> string list" where
  "split_char sep [] = [[]]"
| "split_char sep (c # cs) =
     (if c = sep then [] # split_char sep cs
      else (case split_char sep cs of
              [] \<Rightarrow> [[c]]
            | w # ws \<Rightarrow> (c # w) # ws))"

definition is_space :: "char \<Rightarrow> bool" where
  "is_space c =
     (c \<in> set [CHR '' '', CHR 0x09, CHR 0x0A, CHR 0x0B, CHR 0x0C, CHR 0x0D, CHR 0x1C, CHR 0x1D,
                CHR 0x1E, CHR 0x1F, CHR 0x85, CHR 0xA0])"

definition strip :: "string \<Rightarrow> string" where
  "strip s = rev (dropWhile is_space (rev (dropWhile is_space s)))"

text \<open>
  One entry of the dictionary comprehension (source lines 560 to 578): the key is
  evaluated before the value, each from left to right.
\<close>

definition parse_row :: "string list \<Rightarrow> py_exception + (RunGroupKey \<times> CalibrationData)" where
  "parse_row parts =
     and_then (py_index parts 0) (\<lambda>p0.
     and_then (and_then (py_index parts 1) py_int) (\<lambda>p1.
     and_then (py_index parts 2) (\<lambda>p2.
     and_then (and_then (py_index parts CALIBRATED_TPS_INDEX) py_float) (\<lambda>v_tps.
     and_then (and_then (py_index parts CALIBRATED_COUNT_INDEX) py_int) (\<lambda>v_count.
     and_then (and_then (py_index parts CALIBRATED_MIN_RATIO_INDEX) py_float) (\<lambda>v_min.
     and_then (and_then (py_index parts CALIBRATED_MAX_RATIO_INDEX) py_float) (\<lambda>v_max.
     Inr (\<lparr> transaction_type = p0, module_working_set_size = p1, executor_type = p2 \<rparr>,
          \<lparr> calibrated_tps = v_tps, count = v_count, min_ratio = v_min,
            max_ratio = v_max \<rparr>))))))))"

definition line_parts :: "string \<Rightarrow> string list" where
  "line_parts line = filter (\<lambda>part. part \<noteq> []) (split_char CALIBRATION_SEPARATOR (strip line))"

text \<open>
  The comprehension over the lines: a line without parts is passed over, every other
  line stores its entry under its key, so a later line replaces an earlier one with
  the same key.
\<close>

fun build_table ::
  "string list \<Rightarrow> (RunGroupKey \<rightharpoonup> CalibrationData)
     \<Rightarrow> py_exception + (RunGroupKey \<rightharpoonup> CalibrationData)"
where
  "build_table [] table = Inr table"
| "build_table (line # rest) table =
     (if length (line_parts line) \<ge> 1 then
        (case parse_row (line_parts line) of
           Inl e \<Rightarrow> Inl e
         | Inr (k, d) \<Rightarrow> build_table rest (table(k \<mapsto> d)))
      else build_table rest table)"

definition parse_calibration :: "string \<Rightarrow> py_exception + (RunGroupKey \<rightharpoonup> CalibrationData)" where
  "parse_calibration CALIBRATION = build_table (split_char CHR 0x0A CALIBRATION) Map.empty"

section \<open>External commands and the state of a run\<close>

text \<open>
  The command lines passed to \<^verbatim>\<open>execute_command\<close>, one constructor for each call
  site, with the values that vary between calls instead of the assembled text: the
  package of a \<^verbatim>\<open>cargo build\<close>; the move e2e benchmark; the \<^verbatim>\<open>create-db\<close> warmup;
  and \<^verbatim>\<open>run-executor\<close> for a key, with the block size, the number of execution
  threads and whether it is the \<^verbatim>\<open>--skip-commit\<close> run of the per-thread loop.
\<close>

datatype command =
  CargoBuild string
  | MoveE2EBenchmark
  | CreateDb
  | RunExecutor RunGroupKey int int bool

text \<open>
  How a run can end before its last line: an exception that nothing catches, or
  \<^verbatim>\<open>exit(n)\<close>. The interpreter exits with status 1 on an uncaught exception.
\<close>

datatype abort = Raised py_exception | SystemExit int

fun status_of_abort :: "abort \<Rightarrow> int" where
  "status_of_abort (Raised e) = 1"
| "status_of_abort (SystemExit n) = n"

record RunGroupInstance =
  instance_key :: RunGroupKey
  single_node_result :: RunResults
  number_of_threads_results :: "int \<rightharpoonup> RunResults"
  block_size :: int
  instance_expected_tps :: real

text \<open>
  What the script has done so far: the commands it has launched, in order, the list
  \<^verbatim>\<open>results\<close>, and the lists \<^verbatim>\<open>errors\<close> and \<^verbatim>\<open>warnings\<close>.
\<close>

record RunState =
  launched :: "command list"
  results :: "RunGroupInstance list"
  report :: Report

text \<open>
  \<^verbatim>\<open>execute_command\<close> (source lines 310 to 342). The outside world is \<open>proc\<close>: given
  the commands launched so far, the last being the one that runs, it yields the return
  code and the text \<^verbatim>\<open>full_result\<close>.
\<close>

definition execute_command ::
  "(command list \<Rightarrow> int \<times> string) \<Rightarrow> command \<Rightarrow> RunState \<Rightarrow> (abort + string) \<times> RunState"
where
  "execute_command proc cmd st =
     (let st' = st\<lparr>launched := launched st @ [cmd]\<rparr>
      in case proc (launched st') of
           (returncode, full_result) \<Rightarrow>
             if returncode \<noteq> 0 then (Inl (Raised CmdExecutionError), st')
             else if contains '' ERROR '' full_result then (Inl (SystemExit 1), st')
             else (Inr full_result, st'))"

text \<open>\<^verbatim>\<open>int(x)\<close> on a float: truncation towards zero.\<close>

definition py_trunc :: "real \<Rightarrow> int" where
  "py_trunc x = (if 0 \<le> x then \<lfloor>x\<rfloor> else \<lceil>x\<rceil>)"

text \<open>The loop over \<^verbatim>\<open>EXECUTION_ONLY_NUMBER_OF_THREADS\<close> (source lines 674 to 680).\<close>

fun run_threads ::
  "(command list \<Rightarrow> int \<times> string) \<Rightarrow> RunGroupKey \<Rightarrow> int \<Rightarrow> int list
     \<Rightarrow> (int \<rightharpoonup> RunResults) \<Rightarrow> RunState \<Rightarrow> (abort + (int \<rightharpoonup> RunResults)) \<times> RunState"
where
  "run_threads proc k cur_block_size [] acc st = (Inr acc, st)"
| "run_threads proc k cur_block_size (execution_threads # rest) acc st =
     (case execute_command proc (RunExecutor k cur_block_size execution_threads True) st of
        (Inl a, st1) \<Rightarrow> (Inl a, st1)
      | (Inr output, st1) \<Rightarrow>
          (case extract_run_results output ''Overall execution'' False of
             Inl e \<Rightarrow> (Inl (Raised e), st1)
           | Inr r \<Rightarrow>
               run_threads proc k cur_block_size rest (acc(execution_threads \<mapsto> r)) st1))"

text \<open>
  The instance appended for stage \<open>stage\<close> (source lines 705 to 719): the key is the
  test's key with \<^verbatim>\<open>" [stage N]"\<close> added to the transaction type.
\<close>

definition stage_instance ::
  "RunGroupConfig \<Rightarrow> (int \<rightharpoonup> RunResults) \<Rightarrow> int \<Rightarrow> Criteria \<Rightarrow> nat \<times> RunResults
     \<Rightarrow> RunGroupInstance"
where
  "stage_instance test threads_results cur_block_size criteria sr =
     \<lparr> instance_key =
         \<lparr> transaction_type =
             transaction_type (key test) @ '' [stage '' @ str_nat (fst sr) @ '']'',
           module_working_set_size = module_working_set_size (key test),
           executor_type = executor_type (key test) \<rparr>,
       single_node_result = snd sr,
       number_of_threads_results = threads_results,
       block_size = cur_block_size,
       instance_expected_tps = expected_tps criteria \<rparr>"

text \<open>
  The body of the loop over \<^verbatim>\<open>TESTS\<close> after its two guards (source lines 608 to
  810), without the printing. The result is \<open>None\<close> when the iteration ends normally,
  and the way the run ends otherwise.
\<close>

definition test_body ::
  "Env \<Rightarrow> (command list \<Rightarrow> int \<times> string) \<Rightarrow> (RunGroupKey \<rightharpoonup> CalibrationData)
     \<Rightarrow> RunGroupConfig \<Rightarrow> RunState \<Rightarrow> abort option \<times> RunState"
where
  "test_body env proc calibrated_expected_tps test st =
        (case compute_criteria env test calibrated_expected_tps of
           Inl e \<Rightarrow> (Some (Raised e), st)
         | Inr criteria \<Rightarrow>
             (let cur_block_size =
                    py_trunc (min (expected_tps criteria) (real_of_int (MAX_BLOCK_SIZE env)))
              in if executor_type (key test) \<notin> set [''VM'', ''native'', ''sharded'']
                 then (Some (Raised UnsupportedExecutor), st)
                 else
                   (case run_threads proc (key test) cur_block_size
                           (EXECUTION_ONLY_NUMBER_OF_THREADS env) Map.empty st of
                      (Inl a, st1) \<Rightarrow> (Some a, st1)
                    | (Inr threads_results, st1) \<Rightarrow>
                        (case execute_command proc
                                (RunExecutor (key test) cur_block_size
                                   (NUMBER_OF_EXECUTION_THREADS env) False) st1 of
                           (Inl a, st2) \<Rightarrow> (Some a, st2)
                         | (Inr output, st2) \<Rightarrow>
                             (case extract_run_results output ''Overall'' False of
                                Inl e \<Rightarrow> (Some (Raised e), st2)
                              | Inr single \<Rightarrow>
                                  (case stage_loop output 0 of
                                     Inl e \<Rightarrow> (Some (Raised e), st2)
                                   | Inr stage_node_results \<Rightarrow>
                                       (None,
                                        st2\<lparr> results := results st2
                                               @ [\<lparr> instance_key = key test,
                                                    single_node_result = single,
                                                    number_of_threads_results = threads_results,
                                                    block_size = cur_block_size,
                                                    instance_expected_tps = expected_tps criteria \<rparr>]
                                               @ map (stage_instance test threads_results
                                                        cur_block_size criteria)
                                                   stage_node_results,
                                             report := classify env test criteria (tps single)
                                                         (report st2) \<rparr>)))))))"

text \<open>
  One iteration of the loop over \<^verbatim>\<open>TESTS\<close> (source lines 602 to 810): the two
  \<^verbatim>\<open>continue\<close> guards, then the body.
\<close>

definition run_test ::
  "Env \<Rightarrow> (command list \<Rightarrow> int \<times> string) \<Rightarrow> (RunGroupKey \<rightharpoonup> CalibrationData)
     \<Rightarrow> RunGroupConfig \<Rightarrow> RunState \<Rightarrow> abort option \<times> RunState"
where
  "run_test env proc calibrated_expected_tps test st =
     (if \<not> flow_in (flow_value (SELECTED_FLOW env)) (included_in test) then (None, st)
      else if SKIP_NATIVE env \<and> executor_type (key test) = ''native'' then (None, st)
      else test_body env proc calibrated_expected_tps test st)"

fun run_tests ::
  "Env \<Rightarrow> (command list \<Rightarrow> int \<times> string) \<Rightarrow> (RunGroupKey \<rightharpoonup> CalibrationData)
     \<Rightarrow> RunGroupConfig list \<Rightarrow> RunState \<Rightarrow> abort option \<times> RunState"
where
  "run_tests env proc calibrated_expected_tps [] st = (None, st)"
| "run_tests env proc calibrated_expected_tps (test # rest) st =
     (case run_test env proc calibrated_expected_tps test st of
        (Some a, st1) \<Rightarrow> (Some a, st1)
      | (None, st1) \<Rightarrow> run_tests env proc calibrated_expected_tps rest st1)"

section \<open>The whole run\<close>

text \<open>
  The prerequisite benchmark (source lines 547 to 558). The build is outside the
  \<^verbatim>\<open>try\<close>; the bare \<^verbatim>\<open>except\<close> around the benchmark itself catches every way in
  which \<^verbatim>\<open>execute_command\<close> fails, the \<^verbatim>\<open>exit(1)\<close> on an error line included. The
  result is the value of \<^verbatim>\<open>move_e2e_benchmark_failed\<close>.
\<close>

definition move_e2e_phase ::
  "Env \<Rightarrow> (command list \<Rightarrow> int \<times> string) \<Rightarrow> RunState \<Rightarrow> (abort + bool) \<times> RunState"
where
  "move_e2e_phase env proc st =
     (if SKIP_MOVE_E2E env then (Inr False, st)
      else
        (case execute_command proc (CargoBuild ''aptos-move-e2e-benchmark'') st of
           (Inl a, st1) \<Rightarrow> (Inl a, st1)
         | (Inr built, st1) \<Rightarrow>
             (case execute_command proc MoveE2EBenchmark st1 of
                (Inl a, st2) \<Rightarrow>
                  if SELECTED_FLOW env = LAND_BLOCKING then (Inl (SystemExit 1), st2)
                  else (Inr True, st2)
              | (Inr finished, st2) \<Rightarrow> (Inr False, st2))))"

text \<open>
  Source lines 560 to 810: the calibration table, the build, the warmup that creates
  the database, and the loop over the tests.
\<close>

definition performance_phase ::
  "Env \<Rightarrow> (command list \<Rightarrow> int \<times> string) \<Rightarrow> string \<Rightarrow> RunGroupConfig list \<Rightarrow> RunState
     \<Rightarrow> abort option \<times> RunState"
where
  "performance_phase env proc CALIBRATION TESTS st =
     (case parse_calibration CALIBRATION of
        Inl e \<Rightarrow> (Some (Raised e), st)
      | Inr calibrated_expected_tps \<Rightarrow>
          (case execute_command proc (CargoBuild ''aptos-executor-benchmark'') st of
             (Inl a, st1) \<Rightarrow> (Some a, st1)
           | (Inr built, st1) \<Rightarrow>
               (case execute_command proc CreateDb st1 of
                  (Inl a, st2) \<Rightarrow> (Some a, st2)
                | (Inr output, st2) \<Rightarrow>
                    (case extract_run_results output ''Overall'' True of
                       Inl e \<Rightarrow> (Some (Raised e), st2)
                     | Inr warmup \<Rightarrow>
                         run_tests env proc calibrated_expected_tps TESTS
                           (st2\<lparr> results :=
                                   [\<lparr> instance_key =
                                        \<lparr> transaction_type = ''warmup'',
                                          module_working_set_size = 1,
                                          executor_type = ''VM'' \<rparr>,
                                      single_node_result = warmup,
                                      number_of_threads_results = Map.empty,
                                      block_size = MAX_BLOCK_SIZE env,
                                      instance_expected_tps = 0 \<rparr>] \<rparr>)))))"

text \<open>The last lines of the script (source lines 820 to 840).\<close>

definition final_exit :: "Report \<Rightarrow> bool \<Rightarrow> int" where
  "final_exit rep move_e2e_benchmark_failed =
     (if errors rep \<noteq> [] then 1
      else if move_e2e_benchmark_failed then 1
      else 0)"

text \<open>
  The outcome of a run: the exit status of the process, how the run ended (\<open>None\<close>
  when it reached the last lines of the script), the value of
  \<^verbatim>\<open>move_e2e_benchmark_failed\<close>, and the final state.
\<close>

record Outcome =
  exit_status :: int
  ended :: "abort option"
  benchmark_failed :: bool
  final :: RunState

definition initial_state :: RunState where
  "initial_state = \<lparr> launched = [], results = [], report = \<lparr> errors = [], warnings = [] \<rparr> \<rparr>"

text \<open>
  The script from top to bottom, for the calibration text and the list of tests of
  the module: the check of \<^verbatim>\<open>SOURCE\<close> (source lines 44 to 46), the prerequisite
  benchmark, the performance tests, and the exit.
\<close>

definition main ::
  "Env \<Rightarrow> (command list \<Rightarrow> int \<times> string) \<Rightarrow> string \<Rightarrow> RunGroupConfig list \<Rightarrow> Outcome"
where
  "main env proc CALIBRATION TESTS =
     (if SOURCE env \<notin> set [''ADHOC'', ''CI'', ''LOCAL''] then
        \<lparr> exit_status = 1, ended = Some (SystemExit 1), benchmark_failed = False,
          final = initial_state \<rparr>
      else
        (case move_e2e_phase env proc initial_state of
           (Inl a, st1) \<Rightarrow>
             \<lparr> exit_status = status_of_abort a, ended = Some a, benchmark_failed = False,
               final = st1 \<rparr>
         | (Inr move_e2e_benchmark_failed, st1) \<Rightarrow>
             (case performance_phase env proc CALIBRATION TESTS st1 of
                (Some a, st2) \<Rightarrow>
                  \<lparr> exit_status = status_of_abort a, ended = Some a,
                    benchmark_failed = move_e2e_benchmark_failed, final = st2 \<rparr>
              | (None, st2) \<Rightarrow>
                  \<lparr> exit_status = final_exit (report st2) move_e2e_benchmark_failed,
                    ended = None, benchmark_failed = move_e2e_benchmark_failed,
                    final = st2 \<rparr>)))"

section \<open>Configurations of the source used as examples\<close>

text \<open>
  The environment when no variable is set (\<^verbatim>\<open>FLOW\<close> defaults to \<^verbatim>\<open>LAND_BLOCKING\<close>,
  \<^verbatim>\<open>SKIP_NATIVE\<close> is on), and the same under other flows.
\<close>

definition default_env :: Env where
  "default_env =
     \<lparr> SELECTED_FLOW = LAND_BLOCKING, SOURCE = ''LOCAL'', MAX_BLOCK_SIZE = 10000,
       NUMBER_OF_EXECUTION_THREADS = 32, EXECUTION_ONLY_NUMBER_OF_THREADS = [],
       SKIP_NATIVE = True, SKIP_MOVE_E2E = False \<rparr>"

definition large_db_env :: Env where
  "large_db_env = default_env\<lparr> SELECTED_FLOW := MAINNET_LARGE_DB \<rparr>"

definition agg_v2_env :: Env where
  "agg_v2_env = default_env\<lparr> SELECTED_FLOW := AGG_V2 \<rparr>"

text \<open>Entries of \<^verbatim>\<open>TESTS\<close> (source lines 210, 213, 237 and 290).\<close>

definition test_no_op :: RunGroupConfig where
  "test_no_op =
     \<lparr> key = \<lparr> transaction_type = ''no-op'', module_working_set_size = 1,
               executor_type = ''VM'' \<rparr>,
       included_in = LAND_BLOCKING_AND_C, override_tps = None, waived = False \<rparr>"

definition test_native :: RunGroupConfig where
  "test_native =
     \<lparr> key = \<lparr> transaction_type = ''apt-fa-transfer'', module_working_set_size = 1,
               executor_type = ''native'' \<rparr>,
       included_in = LAND_BLOCKING_AND_C, override_tps = None, waived = False \<rparr>"

definition test_agg_v2 :: RunGroupConfig where
  "test_agg_v2 =
     \<lparr> key = \<lparr> transaction_type = ''modify-global-resource-agg-v2'',
               module_working_set_size = 100, executor_type = ''VM'' \<rparr>,
       included_in = flow_value AGG_V2, override_tps = Some 10000, waived = True \<rparr>"

definition test_large_db :: RunGroupConfig where
  "test_large_db =
     \<lparr> key = \<lparr> transaction_type = ''apt-fa-transfer'', module_working_set_size = 1,
               executor_type = ''VM'' \<rparr>,
       included_in = flow_value MAINNET_LARGE_DB, override_tps = Some 20000,
       waived = False \<rparr>"

text \<open>The first row of \<^verbatim>\<open>CALIBRATION\<close> (source line 162), and a table that holds it.\<close>

definition entry_no_op :: CalibrationData where
  "entry_no_op =
     \<lparr> calibrated_tps = 427377 / 10, count = 15, min_ratio = 922 / 1000,
       max_ratio = 106 / 100 \<rparr>"

definition table_no_op :: "RunGroupKey \<rightharpoonup> CalibrationData" where
  "table_no_op = [key test_no_op \<mapsto> entry_no_op]"

text \<open>The criteria of an uncalibrated test expected at 1000 tps outside the mainnet flows.\<close>

definition criteria_1000 :: Criteria where
  "criteria_1000 =
     \<lparr> expected_tps = 1000, min_tps = 800, min_warn_tps = 900, max_tps = 1150,
       max_warn_tps = 1050 \<rparr>"

definition empty_report :: Report where
  "empty_report = \<lparr> errors = [], warnings = [] \<rparr>"

text \<open>
  A calibration text in the layout of \<^verbatim>\<open>CALIBRATION\<close> with two rows for the key of
  source line 162. The first row has a \<^verbatim>\<open>min_ratio\<close> of 1.5 and a \<^verbatim>\<open>max_ratio\<close> of
  0.5.
\<close>

definition row_first :: string where
  "row_first = ''no-op'' @ [CHR 0x09] @ ''1'' @ [CHR 0x09] @ ''VM'' @ [CHR 0x09] @ ''15''
     @ [CHR 0x09] @ ''1.5'' @ [CHR 0x09] @ ''0.5'' @ [CHR 0x09] @ ''100''"

definition row_second :: string where
  "row_second = ''no-op'' @ [CHR 0x09] @ ''1'' @ [CHR 0x09] @ ''VM'' @ [CHR 0x09] @ ''8''
     @ [CHR 0x09] @ ''0.9'' @ [CHR 0x09] @ ''1.1'' @ [CHR 0x09] @ ''200''"

definition duplicate_rows :: string where
  "duplicate_rows = [CHR 0x0A] @ row_first @ [CHR 0x0A] @ row_second @ [CHR 0x0A]"

text \<open>
  The patterns of \<^verbatim>\<open>extract_run_results\<close> after the prefix: the eight rates, read
  with \<^verbatim>\<open>get_only\<close> (whether a minus sign is allowed, the text before the number
  and the text after it), and the three fractions, read with \<^verbatim>\<open>[-1]\<close>.
\<close>

definition rate_patterns :: "(bool \<times> string \<times> string) list" where
  "rate_patterns =
     [(False, '' TPS: '', '' txn/s''), (False, '' GPS: '', '' gas/s''),
      (False, '' effectiveGPS: '', '' gas/s''), (False, '' ioGPS: '', '' gas/s''),
      (False, '' executionGPS: '', '' gas/s''), (False, '' GPT: '', '' gas/txn''),
      (True, '' Storage fee: '', '' octas/txn''), (False, '' output: '', '' bytes/s'')]"

definition fraction_patterns :: "(string \<times> string) list" where
  "fraction_patterns =
     [('' fraction of total: '', '' in execution''), ('' fraction of execution '', '' in VM''),
      ('' fraction of total: '', '' in commit'')]"

text \<open>A text made of lines, each ended by a newline.\<close>

fun unlines :: "string list \<Rightarrow> string" where
  "unlines [] = []"
| "unlines (l # ls) = l @ CHR 0x0A # unlines ls"

text \<open>
  An output of the benchmark with every metric under the prefix \<^verbatim>\<open>"Overall"\<close>, where
  the line of the fraction of time in execution comes twice, with 0.5 and then 0.7.
\<close>

definition repeated_fraction_output :: string where
  "repeated_fraction_output = unlines
     [''Overall TPS: 500.0 txn/s'',
      ''Overall GPS: 10 gas/s'',
      ''Overall effectiveGPS: 11 gas/s'',
      ''Overall ioGPS: 12 gas/s'',
      ''Overall executionGPS: 13 gas/s'',
      ''Overall GPT: 14 gas/txn'',
      ''Overall Storage fee: -15 octas/txn'',
      ''Overall output: 16 bytes/s'',
      ''Overall fraction of total: 0.5 in execution'',
      ''Overall fraction of total: 0.7 in execution'',
      ''Overall fraction of execution 0.25 in VM'',
      ''Overall fraction of total: 0.125 in commit'']"

text \<open>
  An output of the benchmark with the metrics of the whole run under \<^verbatim>\<open>"Overall"\<close>,
  at 20000 tps, and one stage section, stage 0, at 100 tps; and the outside world in
  which every command succeeds with this output.
\<close>

definition staged_output :: string where
  "staged_output = unlines
     [''Overall TPS: 20000.0 txn/s'',
      ''Overall GPS: 10 gas/s'',
      ''Overall effectiveGPS: 11 gas/s'',
      ''Overall ioGPS: 12 gas/s'',
      ''Overall executionGPS: 13 gas/s'',
      ''Overall GPT: 14 gas/txn'',
      ''Overall Storage fee: 15 octas/txn'',
      ''Overall output: 16 bytes/s'',
      ''Overall fraction of total: 0.5 in execution'',
      ''Overall fraction of execution 0.25 in VM'',
      ''Overall fraction of total: 0.125 in commit'',
      ''Staged execution: stage 0: TPS: 100.0 txn/s'',
      ''Staged execution: stage 0: GPS: 1 gas/s'',
      ''Staged execution: stage 0: effectiveGPS: 2 gas/s'',
      ''Staged execution: stage 0: ioGPS: 3 gas/s'',
      ''Staged execution: stage 0: executionGPS: 4 gas/s'',
      ''Staged execution: stage 0: GPT: 5 gas/txn'',
      ''Staged execution: stage 0: Storage fee: 6 octas/txn'',
      ''Staged execution: stage 0: output: 7 bytes/s'',
      ''Staged execution: stage 0: fraction of total: 0.5 in execution'',
      ''Staged execution: stage 0: fraction of execution 0.5 in VM'',
      ''Staged execution: stage 0: fraction of total: 0.5 in commit'']"

definition staged_proc :: "command list \<Rightarrow> int \<times> string" where
  "staged_proc history = (0, staged_output)"

definition staged_overall :: RunResults where
  "staged_overall =
     \<lparr> tps = 20000, gps = 10, effective_gps = 11, io_gps = 12, execution_gps = 13,
       gpt = 14, storage_fee_pt = 15, output_bps = 16, fraction_in_execution = 1 / 2,
       fraction_of_execution_in_vm = 1 / 4, fraction_in_commit = 1 / 8 \<rparr>"

definition staged_stage_0 :: RunResults where
  "staged_stage_0 =
     \<lparr> tps = 100, gps = 1, effective_gps = 2, io_gps = 3, execution_gps = 4,
       gpt = 5, storage_fee_pt = 6, output_bps = 7, fraction_in_execution = 1 / 2,
       fraction_of_execution_in_vm = 1 / 2, fraction_in_commit = 1 / 2 \<rparr>"

definition criteria_large_db :: Criteria where
  "criteria_large_db =
     \<lparr> expected_tps = 20000, min_tps = 19600, min_warn_tps = 18000, max_tps = 23000,
       max_warn_tps = 21000 \<rparr>"

text \<open>
  The first row of \<^verbatim>\<open>CALIBRATION\<close> as text (source line 162), in the layout of the
  table; the environment of a run with \<^verbatim>\<open>DISABLE_FA_APT\<close> and \<^verbatim>\<open>SKIP_MOVE_E2E\<close> set,
  and the one with \<^verbatim>\<open>SKIP_MOVE_E2E\<close> alone; the output of a warmup; an outside world
  in which every command succeeds with that output, and one in which every command
  returns the code 1.
\<close>

definition row_no_op :: string where
  "row_no_op = ''no-op'' @ [CHR 0x09] @ ''1'' @ [CHR 0x09] @ ''VM'' @ [CHR 0x09] @ ''15''
     @ [CHR 0x09] @ ''0.922'' @ [CHR 0x09] @ ''1.06'' @ [CHR 0x09] @ ''42737.7''"

definition calibration_no_op :: string where
  "calibration_no_op = [CHR 0x0A] @ row_no_op @ [CHR 0x0A]"

definition native_env :: Env where
  "native_env = default_env\<lparr> SKIP_NATIVE := False, SKIP_MOVE_E2E := True \<rparr>"

definition no_e2e_env :: Env where
  "no_e2e_env = default_env\<lparr> SKIP_MOVE_E2E := True \<rparr>"

definition warmup_output :: string where
  "warmup_output = unlines [''Overall TPS: create_db: account creation: 100.5 txn/s'']"

definition warmup_proc :: "command list \<Rightarrow> int \<times> string" where
  "warmup_proc history = (0, warmup_output)"

definition failing_proc :: "command list \<Rightarrow> int \<times> string" where
  "failing_proc history = (1, [])"

definition warmup_instance :: RunGroupInstance where
  "warmup_instance =
     \<lparr> instance_key = \<lparr> transaction_type = ''warmup'', module_working_set_size = 1,
                        executor_type = ''VM'' \<rparr>,
       single_node_result =
         \<lparr> tps = 201 / 2, gps = 0, effective_gps = 0, io_gps = 0, execution_gps = 0,
           gpt = 0, storage_fee_pt = 0, output_bps = 0, fraction_in_execution = 0,
           fraction_of_execution_in_vm = 0, fraction_in_commit = 0 \<rparr>,
       number_of_threads_results = Map.empty, block_size = 10000,
       instance_expected_tps = 0 \<rparr>"

text \<open>
  An outside world in which the move e2e benchmark returns the code 1 and every other
  command succeeds with the output of a warmup.
\<close>

definition e2e_failing_proc :: "command list \<Rightarrow> int \<times> string" where
  "e2e_failing_proc history =
     (if history \<noteq> [] \<and> last history = MoveE2EBenchmark then (1, []) else (0, warmup_output))"

text \<open>
  The environment under the flow \<^verbatim>\<open>REPRESENTATIVE\<close>, and the entry of \<^verbatim>\<open>TESTS\<close> of
  source line 286, with an override of 50000.
\<close>

definition representative_env :: Env where
  "representative_env = default_env\<lparr> SELECTED_FLOW := REPRESENTATIVE \<rparr>"

definition test_connected_components :: RunGroupConfig where
  "test_connected_components =
     \<lparr> key = \<lparr> transaction_type = ''coin_transfer_connected_components'',
               module_working_set_size = 1, executor_type = ''sharded'' \<rparr>,
       included_in = flow_value REPRESENTATIVE, override_tps = Some 50000, waived = True \<rparr>"

text \<open>
  The first row of \<^verbatim>\<open>CALIBRATION\<close> (source line 162) as the floats that \<^verbatim>\<open>float\<close>
  makes of its fields, a table that holds it, and a power function that rounds the
  real power to the nearest double.
\<close>

definition entry_no_op_double :: CalibrationData where
  "entry_no_op_double =
     \<lparr> calibrated_tps = round_double (427377 / 10), count = 15,
       min_ratio = round_double (922 / 1000), max_ratio = round_double (106 / 100) \<rparr>"

definition table_no_op_double :: "RunGroupKey \<rightharpoonup> CalibrationData" where
  "table_no_op_double = [key test_no_op \<mapsto> entry_no_op_double]"

definition nearest_pow :: "real \<Rightarrow> real \<Rightarrow> real" where
  "nearest_pow x y = round_double (x powr y)"

section \<open>Thresholds\<close>

text \<open>One step of the scaling, for a number of steps written as a numeral.\<close>

lemma scale_mantissa_step:
  "0 < n \<Longrightarrow> scale_mantissa n m e =
     (if 9007199254740992 \<le> m then scale_mantissa (n - 1) (m / 2) (e + 1)
      else if m < 4503599627370496 \<and> - 1074 < e then scale_mantissa (n - 1) (m * 2) (e - 1)
      else (m, e))"
  by (cases n) simp_all

lemmas double_steps =
  round_double_def scale_mantissa_step round_half_even_def pow2_def float_literal_def

text \<open>
  The scaling keeps the value \<open>m * 2^e\<close>, and an exponent above zero comes with a
  mantissa of at least \<open>2^52\<close>.
\<close>

lemma pow2_powi: "pow2 e = 2 powi e"
  by (simp add: pow2_def power_int_def field_simps)

lemma pow2_pos: "0 < pow2 e"
  by (simp add: pow2_powi)

lemma pow2_up: "pow2 (e + 1) = 2 * pow2 e"
  by (simp add: pow2_powi power_int_add)

lemma pow2_down: "pow2 (e - 1) = pow2 e / 2"
  by (simp add: pow2_powi power_int_diff)

lemma scale_mantissa_invariant:
  assumes "scale_mantissa n m e = (m', e')" and "0 < m" and "0 < e \<longrightarrow> 4503599627370496 \<le> m"
  shows "m' * pow2 e' = m * pow2 e \<and> 0 < m' \<and> (0 < e' \<longrightarrow> 4503599627370496 \<le> m')"
  using assms
proof (induction n arbitrary: m e)
  case 0
  then show ?case by simp
next
  case (Suc n)
  show ?case
  proof (cases "9007199254740992 \<le> m")
    case True
    with Suc.prems have "scale_mantissa n (m / 2) (e + 1) = (m', e')" by simp
    from Suc.IH [OF this] True Suc.prems(2) show ?thesis by (simp add: pow2_up)
  next
    case False
    show ?thesis
    proof (cases "m < 4503599627370496 \<and> - 1074 < e")
      case True
      with False Suc.prems have "scale_mantissa n (m * 2) (e - 1) = (m', e')" by simp
      moreover from True Suc.prems(3) have "\<not> 0 < e - 1" by auto
      ultimately show ?thesis using Suc.IH [of "m * 2" "e - 1"] Suc.prems(2)
        by (simp add: pow2_down)
    next
      case stop: False
      with False Suc.prems show ?thesis by auto
    qed
  qed
qed

text \<open>Rounding to an integer does not pass an integer.\<close>

lemma round_half_even_le: "x \<le> of_int N \<Longrightarrow> round_half_even x \<le> N"
  unfolding round_half_even_def by (auto; linarith)

lemma round_half_even_ge: "of_int N \<le> x \<Longrightarrow> N \<le> round_half_even x"
  unfolding round_half_even_def by (auto; linarith)

lemma round_double_abs:
  assumes "x \<noteq> 0" and "scale_mantissa 2200 \<bar>x\<bar> 0 = (m, e)"
  shows "\<bar>round_double x\<bar> = real_of_int (round_half_even m) * pow2 e"
    and "m * pow2 e = \<bar>x\<bar>" and "0 < m" and "0 < e \<longrightarrow> 4503599627370496 \<le> m"
proof -
  from scale_mantissa_invariant [OF assms(2)] assms(1)
  show inv: "m * pow2 e = \<bar>x\<bar>" "0 < m" "0 < e \<longrightarrow> 4503599627370496 \<le> m"
    by (simp_all add: pow2_def)
  from inv(2) have "0 \<le> round_half_even m"
    using round_half_even_ge [of 0 m] by simp
  then show "\<bar>round_double x\<bar> = real_of_int (round_half_even m) * pow2 e"
    using assms pow2_pos [of e] by (simp add: round_double_def abs_mult)
qed

text \<open>Rounding to a double does not pass a power of two, and does not go below one.\<close>

lemma round_double_le:
  assumes "\<bar>x\<bar> \<le> 2 ^ k"
  shows "\<bar>round_double x\<bar> \<le> 2 ^ k"
proof (cases "x = 0")
  case True
  then show ?thesis by (simp add: round_double_def)
next
  case False
  obtain m e where me: "scale_mantissa 2200 \<bar>x\<bar> 0 = (m, e)"
    by (cases "scale_mantissa 2200 \<bar>x\<bar> 0")
  note r = round_double_abs [OF False me]
  have bound: "real_of_int (round_half_even m) * pow2 e \<le> real_of_int N * pow2 e"
    if "m \<le> real_of_int N" for N
  proof -
    from that have "round_half_even m \<le> N" by (rule round_half_even_le)
    then have "real_of_int (round_half_even m) \<le> real_of_int N" by simp
    then show ?thesis using pow2_pos [of e] by (simp only: mult_le_cancel_right_pos)
  qed
  show ?thesis
  proof (cases "0 < e")
    case True
    then have p: "pow2 e = 2 ^ nat e" by (simp add: pow2_def)
    from True r(4) have big: "1 \<le> m" by simp
    have "(2::real) ^ nat e = 1 * 2 ^ nat e" by simp
    also have "\<dots> \<le> m * 2 ^ nat e" using big by (intro mult_right_mono) simp_all
    also have "\<dots> \<le> 2 ^ k" using r(2) assms by (simp only: p)
    finally have le: "nat e \<le> k" by simp
    define N :: int where "N = 2 ^ (k - nat e)"
    have N: "real_of_int N * pow2 e = 2 ^ k"
      unfolding N_def p using le by (simp add: power_add [symmetric])
    have "m * pow2 e \<le> real_of_int N * pow2 e" using r(2) assms by (simp only: N)
    then have "m \<le> real_of_int N" using pow2_pos [of e] by (simp only: mult_le_cancel_right_pos)
    from bound [OF this] show ?thesis by (simp only: r(1) N)
  next
    case False
    then have p: "pow2 e = 1 / 2 ^ nat (- e)" by (auto simp: pow2_def)
    define N :: int where "N = 2 ^ k * 2 ^ nat (- e)"
    have N: "real_of_int N * pow2 e = 2 ^ k"
      unfolding N_def p by simp
    have "m * pow2 e \<le> real_of_int N * pow2 e" using r(2) assms by (simp only: N)
    then have "m \<le> real_of_int N" using pow2_pos [of e] by (simp only: mult_le_cancel_right_pos)
    from bound [OF this] show ?thesis by (simp only: r(1) N)
  qed
qed

lemma round_double_ge_one:
  assumes "1 \<le> x"
  shows "1 \<le> round_double x"
proof -
  from assms have nz: "x \<noteq> 0" and pos: "\<bar>x\<bar> = x" by simp_all
  obtain m e where me: "scale_mantissa 2200 \<bar>x\<bar> 0 = (m, e)"
    by (cases "scale_mantissa 2200 \<bar>x\<bar> 0")
  note r = round_double_abs [OF nz me]
  have eq: "round_double x = real_of_int (round_half_even m) * pow2 e"
    using assms me by (simp add: round_double_def)
  show ?thesis
  proof (cases "0 < e")
    case True
    then have p: "pow2 e = 2 ^ nat e" by (simp add: pow2_def)
    from True r(4) have "real_of_int 1 \<le> m" by simp
    then have "1 \<le> round_half_even m" by (rule round_half_even_ge)
    then have "1 \<le> real_of_int (round_half_even m)" by simp
    moreover have "(1::real) \<le> 2 ^ nat e" by simp
    ultimately have "1 * 1 \<le> real_of_int (round_half_even m) * 2 ^ nat e"
      by (intro mult_mono) simp_all
    then show ?thesis by (simp add: eq p)
  next
    case False
    then have p: "pow2 e = 1 / 2 ^ nat (- e)" by (auto simp: pow2_def)
    from r(2) assms pos have "2 ^ nat (- e) \<le> m" by (simp add: p field_simps)
    then have "real_of_int (2 ^ nat (- e)) \<le> m" by simp
    then have "2 ^ nat (- e) \<le> round_half_even m" by (rule round_half_even_ge)
    then have "2 ^ nat (- e) \<le> real_of_int (round_half_even m)"
      by (metis of_int_le_iff of_int_numeral of_int_power)
    then show ?thesis by (simp add: eq p field_simps)
  qed
qed

text \<open>
  An operation whose exact result is at most \<open>2^1020\<close> in magnitude gives a finite
  double, of a magnitude within the same power of two.
\<close>

lemma float_result_within:
  assumes "\<bar>x\<bar> \<le> 2 ^ k" and "k \<le> 1020"
  shows "float_result x = Some (round_double x)" and "\<bar>round_double x\<bar> \<le> 2 ^ k"
proof -
  from assms(2) have "(2::real) ^ k \<le> 2 ^ 1020" by (intro power_increasing) simp_all
  with assms(1) have "\<bar>x\<bar> \<le> 2 ^ 1020" by (rule order_trans)
  then have "finite_double x" by (simp add: finite_double_def)
  then show "float_result x = Some (round_double x)" by (simp add: float_result_def)
  from assms(1) show "\<bar>round_double x\<bar> \<le> 2 ^ k" by (rule round_double_le)
qed

lemma float_mul_within:
  assumes "\<bar>x\<bar> \<le> 2 ^ i" and "\<bar>y\<bar> \<le> 2 ^ j" and "i + j \<le> 1020"
  shows "float_mul x y = Some (round_double (x * y))"
    and "\<bar>round_double (x * y)\<bar> \<le> 2 ^ (i + j)"
proof -
  have "\<bar>x * y\<bar> \<le> 2 ^ i * 2 ^ j"
    unfolding abs_mult using assms(1,2) by (intro mult_mono) simp_all
  then have "\<bar>x * y\<bar> \<le> 2 ^ (i + j)" by (simp add: power_add)
  from float_result_within [OF this assms(3)]
  show "float_mul x y = Some (round_double (x * y))"
    and "\<bar>round_double (x * y)\<bar> \<le> 2 ^ (i + j)"
    by (simp_all add: float_mul_def)
qed

lemma float_add_within:
  assumes "\<bar>x\<bar> \<le> 2 ^ i" and "\<bar>y\<bar> \<le> 2 ^ i" and "i < 1020"
  shows "float_add x y = Some (round_double (x + y))"
    and "\<bar>round_double (x + y)\<bar> \<le> 2 ^ Suc i"
proof -
  from assms(1,2) have "\<bar>x + y\<bar> \<le> 2 ^ Suc i" by simp
  moreover from assms(3) have "Suc i \<le> 1020" by simp
  ultimately show "float_add x y = Some (round_double (x + y))"
    and "\<bar>round_double (x + y)\<bar> \<le> 2 ^ Suc i"
    using float_result_within [of "x + y" "Suc i"] by (simp_all add: float_add_def)
qed

lemma float_sub_within:
  assumes "\<bar>x\<bar> \<le> 2 ^ i" and "\<bar>y\<bar> \<le> 2 ^ i" and "i < 1020"
  shows "float_sub x y = Some (round_double (x - y))"
    and "\<bar>round_double (x - y)\<bar> \<le> 2 ^ Suc i"
proof -
  from assms(1,2) have "\<bar>x - y\<bar> \<le> 2 ^ Suc i" by simp
  moreover from assms(3) have "Suc i \<le> 1020" by simp
  ultimately show "float_sub x y = Some (round_double (x - y))"
    and "\<bar>round_double (x - y)\<bar> \<le> 2 ^ Suc i"
    using float_result_within [of "x - y" "Suc i"] by (simp_all add: float_sub_def)
qed

lemma float_div_within:
  assumes "\<bar>x\<bar> \<le> 2 ^ i" and "1 \<le> y" and "i \<le> 1020"
  shows "float_div x y = Some (round_double (x / y))"
    and "\<bar>round_double (x / y)\<bar> \<le> 2 ^ i"
proof -
  from assms(2) have "1 * \<bar>x\<bar> \<le> y * \<bar>x\<bar>" by (intro mult_right_mono) simp_all
  with assms(2) have "\<bar>x / y\<bar> \<le> \<bar>x\<bar>" by (simp add: field_simps)
  with assms(1) have "\<bar>x / y\<bar> \<le> 2 ^ i" by simp
  from float_result_within [OF this assms(3)]
  show "float_div x y = Some (round_double (x / y))"
    and "\<bar>round_double (x / y)\<bar> \<le> 2 ^ i"
    by (simp_all add: float_div_def)
qed

lemma widen_bound:
  fixes x :: real
  assumes "\<bar>x\<bar> \<le> 2 ^ i" and "i \<le> j"
  shows "\<bar>x\<bar> \<le> 2 ^ j"
proof -
  from assms(2) have "(2::real) ^ i \<le> 2 ^ j" by (intro power_increasing) simp_all
  with assms(1) show ?thesis by (rule order_trans)
qed

text \<open>A count from one to \<open>2^500\<close> becomes a float of at least one.\<close>

lemma float_of_int_count:
  assumes "1 \<le> c" and "c \<le> 2 ^ 500"
  shows "float_of_int c = Inr (round_double (real_of_int c))"
    and "1 \<le> round_double (real_of_int c)"
proof -
  from assms(2) have "real_of_int c \<le> real_of_int (2 ^ 500)" by (simp only: of_int_le_iff)
  with assms(1) have "\<bar>real_of_int c\<bar> \<le> 2 ^ 500" by simp
  from float_result_within(1) [OF this]
  show "float_of_int c = Inr (round_double (real_of_int c))"
    by (simp add: float_of_int_def float_result_def split: if_splits)
  from assms(1) show "1 \<le> round_double (real_of_int c)"
    by (intro round_double_ge_one) simp
qed

text \<open>
  The two bounds of the calibrated branch: the factor that widens the lower ratio, and
  the one that widens the upper ratio, each with its product with the expected tps.
\<close>

lemma lower_bound_within:
  assumes "1 \<le> n" and "\<bar>m\<bar> \<le> 2 ^ 500" and "\<bar>t\<bar> \<le> 2 ^ 500"
  shows "(do {
      lower_gap \<leftarrow> float_sub 1 m;
      lower_tenth \<leftarrow> float_div 10 n;
      lower_widening \<leftarrow> float_add 1 lower_tenth;
      lower_spread \<leftarrow> float_mul lower_gap lower_widening;
      lower_rest \<leftarrow> float_sub 1 lower_spread;
      lower_share \<leftarrow> float_div 1 n;
      lower_factor \<leftarrow> float_sub lower_rest lower_share;
      lower \<leftarrow> float_mul t lower_factor;
      cont lower }) =
    cont (round_double (t * round_double (round_double (1 - round_double
      (round_double (1 - m) * round_double (1 + round_double (10 / n))))
      - round_double (1 / n))))"
proof -
  let ?tenth = "round_double (10 / n)"
  let ?widening = "round_double (1 + ?tenth)"
  let ?gap = "round_double (1 - m)"
  let ?spread = "round_double (?gap * ?widening)"
  let ?rest = "round_double (1 - ?spread)"
  let ?share = "round_double (1 / n)"
  let ?factor = "round_double (?rest - ?share)"
  have one: "\<bar>1::real\<bar> \<le> 2 ^ k" for k by simp
  have ten: "\<bar>10::real\<bar> \<le> 2 ^ 4" by simp
  have gap: "float_sub 1 m = Some ?gap" "\<bar>?gap\<bar> \<le> 2 ^ 501"
    using float_sub_within [OF one assms(2)] by simp_all
  have tenth: "float_div 10 n = Some ?tenth" "\<bar>?tenth\<bar> \<le> 2 ^ 4"
    using float_div_within [OF ten assms(1)] by simp_all
  have widening: "float_add 1 ?tenth = Some ?widening" "\<bar>?widening\<bar> \<le> 2 ^ 5"
    using float_add_within [OF one tenth(2)] by simp_all
  have spread: "float_mul ?gap ?widening = Some ?spread" "\<bar>?spread\<bar> \<le> 2 ^ 506"
    using float_mul_within [OF gap(2) widening(2)] by simp_all
  have rest: "float_sub 1 ?spread = Some ?rest" "\<bar>?rest\<bar> \<le> 2 ^ 507"
    using float_sub_within [OF one spread(2)] by simp_all
  have share: "float_div 1 n = Some ?share" "\<bar>?share\<bar> \<le> 2 ^ 507"
    using float_div_within [OF one [of 507] assms(1)] by simp_all
  have factor: "float_sub ?rest ?share = Some ?factor" "\<bar>?factor\<bar> \<le> 2 ^ 508"
    using float_sub_within [OF rest(2) share(2)] by simp_all
  have lower: "float_mul t ?factor = Some (round_double (t * ?factor))"
    using float_mul_within(1) [OF assms(3) factor(2)] by simp
  show ?thesis
    by (simp only: gap(1) tenth(1) widening(1) spread(1) rest(1) share(1) factor(1) lower
        Option.bind.simps)
qed

lemma upper_bound_within:
  assumes "1 \<le> n" and "\<bar>m\<bar> \<le> 2 ^ 500" and "\<bar>t\<bar> \<le> 2 ^ 500"
  shows "(do {
      upper_gap \<leftarrow> float_sub m 1;
      upper_tenth \<leftarrow> float_div 10 n;
      upper_widening \<leftarrow> float_add 1 upper_tenth;
      upper_spread \<leftarrow> float_mul upper_gap upper_widening;
      upper_rest \<leftarrow> float_add 1 upper_spread;
      upper_share \<leftarrow> float_div 1 n;
      upper_factor \<leftarrow> float_add upper_rest upper_share;
      upper \<leftarrow> float_mul t upper_factor;
      cont upper }) =
    cont (round_double (t * round_double (round_double (1 + round_double
      (round_double (m - 1) * round_double (1 + round_double (10 / n))))
      + round_double (1 / n))))"
proof -
  let ?tenth = "round_double (10 / n)"
  let ?widening = "round_double (1 + ?tenth)"
  let ?gap = "round_double (m - 1)"
  let ?spread = "round_double (?gap * ?widening)"
  let ?rest = "round_double (1 + ?spread)"
  let ?share = "round_double (1 / n)"
  let ?factor = "round_double (?rest + ?share)"
  have one: "\<bar>1::real\<bar> \<le> 2 ^ k" for k by simp
  have ten: "\<bar>10::real\<bar> \<le> 2 ^ 4" by simp
  have gap: "float_sub m 1 = Some ?gap" "\<bar>?gap\<bar> \<le> 2 ^ 501"
    using float_sub_within [OF assms(2) one] by simp_all
  have tenth: "float_div 10 n = Some ?tenth" "\<bar>?tenth\<bar> \<le> 2 ^ 4"
    using float_div_within [OF ten assms(1)] by simp_all
  have widening: "float_add 1 ?tenth = Some ?widening" "\<bar>?widening\<bar> \<le> 2 ^ 5"
    using float_add_within [OF one tenth(2)] by simp_all
  have spread: "float_mul ?gap ?widening = Some ?spread" "\<bar>?spread\<bar> \<le> 2 ^ 506"
    using float_mul_within [OF gap(2) widening(2)] by simp_all
  have rest: "float_add 1 ?spread = Some ?rest" "\<bar>?rest\<bar> \<le> 2 ^ 507"
    using float_add_within [OF one spread(2)] by simp_all
  have share: "float_div 1 n = Some ?share" "\<bar>?share\<bar> \<le> 2 ^ 507"
    using float_div_within [OF one [of 507] assms(1)] by simp_all
  have factor: "float_add ?rest ?share = Some ?factor" "\<bar>?factor\<bar> \<le> 2 ^ 508"
    using float_add_within [OF rest(2) share(2)] by simp_all
  have upper: "float_mul t ?factor = Some (round_double (t * ?factor))"
    using float_mul_within(1) [OF assms(3) factor(2)] by simp
  show ?thesis
    by (simp only: gap(1) tenth(1) widening(1) spread(1) rest(1) share(1) factor(1) upper
        Option.bind.simps)
qed

text \<open>
  Claim C1. When a test has no static override and its key has an entry in the
  calibration table with a count of at least one (ratios that are not negative, and
  numbers of a magnitude up to \<open>2^500\<close>, so that each result is a finite real number),
  the criteria are exactly: the entry's expected tps; the lower bound
  \<open>expected * (1 - (1 - min_ratio) * (1 + 10/count) - 1/count)\<close>; the upper bound
  \<open>expected * (1 + (max_ratio - 1) * (1 + 10/count) + 1/count)\<close>; and the two warning
  bounds \<open>expected * min_ratio^0.8\<close> and \<open>expected * max_ratio^0.8\<close>; each operation of
  these formulas is the operation on doubles, rounded to the nearest double, and the
  power is that of the C library.
\<close>

theorem calibrated_criteria_formula:
  assumes "override_tps test = None"
    and "table (key test) = Some entry"
    and "1 \<le> count entry" and "count entry \<le> 2 ^ 500"
    and "0 \<le> min_ratio entry" and "min_ratio entry \<le> 2 ^ 500"
    and "0 \<le> max_ratio entry" and "max_ratio entry \<le> 2 ^ 500"
    and "\<bar>calibrated_tps entry\<bar> \<le> 2 ^ 500"
    and "\<bar>libm_pow (min_ratio entry) (round_double (8 / 10))\<bar> \<le> 2 ^ 500"
    and "\<bar>libm_pow (max_ratio entry) (round_double (8 / 10))\<bar> \<le> 2 ^ 500"
  shows "compute_criteria_double libm_pow env test table = Inr (Some \<lparr>
      expected_tps = calibrated_tps entry,
      min_tps = round_double (calibrated_tps entry
        * round_double
            (round_double
               (1 - round_double
                      (round_double (1 - min_ratio entry)
                       * round_double
                           (1 + round_double (10 / round_double (real_of_int (count entry))))))
             - round_double (1 / round_double (real_of_int (count entry))))),
      min_warn_tps = round_double (calibrated_tps entry
        * libm_pow (min_ratio entry) (round_double (8 / 10))),
      max_tps = round_double (calibrated_tps entry
        * round_double
            (round_double
               (1 + round_double
                      (round_double (max_ratio entry - 1)
                       * round_double
                           (1 + round_double (10 / round_double (real_of_int (count entry))))))
             + round_double (1 / round_double (real_of_int (count entry))))),
      max_warn_tps = round_double (calibrated_tps entry
        * libm_pow (max_ratio entry) (round_double (8 / 10))) \<rparr>)"
proof -
  note n = float_of_int_count [OF assms(3,4)]
  from n(2) have nz: "round_double (real_of_int (count entry)) \<noteq> 0" by simp
  from assms(5,6) have lo: "\<bar>min_ratio entry\<bar> \<le> 2 ^ 500" by simp
  from assms(7,8) have hi: "\<bar>max_ratio entry\<bar> \<le> 2 ^ 500" by simp
  have lower_warn: "float_mul (calibrated_tps entry)
      (libm_pow (min_ratio entry) (round_double (8 / 10)))
    = Some (round_double (calibrated_tps entry
        * libm_pow (min_ratio entry) (round_double (8 / 10))))"
    using float_mul_within(1) [OF assms(9,10)] by simp
  have upper_warn: "float_mul (calibrated_tps entry)
      (libm_pow (max_ratio entry) (round_double (8 / 10)))
    = Some (round_double (calibrated_tps entry
        * libm_pow (max_ratio entry) (round_double (8 / 10))))"
    using float_mul_within(1) [OF assms(9,11)] by simp
  from assms(5,7) have ratios: "\<not> (min_ratio entry < 0 \<or> max_ratio entry < 0)" by simp
  show ?thesis
    unfolding compute_criteria_double_def calibrated_criteria_double_def
    by (simp only: assms(1,2) n(1) nz ratios option.case sum.case if_False
        lower_bound_within [OF n(2) lo assms(9)] upper_bound_within [OF n(2) hi assms(9)]
        lower_warn upper_warn float_literal_def Option.bind.simps)
qed

text \<open>A power rounded to the nearest double, for a base up to two and an exponent up to one.\<close>

lemma nearest_pow_within:
  assumes "0 \<le> x" and "x \<le> 2" and "0 \<le> y" and "y \<le> 1"
  shows "\<bar>nearest_pow x y\<bar> \<le> 2 ^ 500"
proof -
  have "x powr y \<le> 2"
  proof (cases "x \<le> 1")
    case True
    with assms(1,3) have "x powr y \<le> 1" by (intro powr_le1) auto
    then show ?thesis by simp
  next
    case False
    then have "x powr y \<le> x powr 1" using assms(4) by (intro powr_mono) simp_all
    with assms(1,2) show ?thesis by simp
  qed
  then have "\<bar>x powr y\<bar> \<le> 2 ^ 1" by simp
  then have "\<bar>round_double (x powr y)\<bar> \<le> 2 ^ 1" by (rule round_double_le)
  then show ?thesis unfolding nearest_pow_def by (rule widen_bound) simp
qed

theorem calibrated_criteria_formula_witness:
  "override_tps test_no_op = None
   \<and> table_no_op_double (key test_no_op) = Some entry_no_op_double
   \<and> 1 \<le> count entry_no_op_double
   \<and> 0 \<le> min_ratio entry_no_op_double
   \<and> 0 \<le> max_ratio entry_no_op_double
   \<and> calibrated_tps entry_no_op_double = 2936912380900147 / 68719476736
   \<and> compute_criteria_double nearest_pow default_env test_no_op table_no_op_double
       = Inr (Some \<lparr>
           expected_tps = calibrated_tps entry_no_op_double,
           min_tps = 589829903164113 / 17179869184,
           min_warn_tps = round_double (calibrated_tps entry_no_op_double
             * nearest_pow (min_ratio entry_no_op_double) (round_double (8 / 10))),
           max_tps = 6852795555433677 / 137438953472,
           max_warn_tps = round_double (calibrated_tps entry_no_op_double
             * nearest_pow (max_ratio entry_no_op_double) (round_double (8 / 10))) \<rparr>)"
proof -
  have fields: "calibrated_tps entry_no_op_double = 2936912380900147 / 68719476736"
    "min_ratio entry_no_op_double = 8304637712871195 / 9007199254740992"
    "max_ratio entry_no_op_double = 2386907802506363 / 2251799813685248"
    "count entry_no_op_double = 15"
    by (simp_all add: entry_no_op_double_def double_steps del: scale_mantissa.simps)
  have exponent: "round_double (8 / 10) = 3602879701896397 / 4503599627370496"
    by (simp add: double_steps del: scale_mantissa.simps)
  have h: "override_tps test_no_op = None"
    "table_no_op_double (key test_no_op) = Some entry_no_op_double"
    "1 \<le> count entry_no_op_double" "count entry_no_op_double \<le> 2 ^ 500"
    "0 \<le> min_ratio entry_no_op_double" "min_ratio entry_no_op_double \<le> 2 ^ 500"
    "0 \<le> max_ratio entry_no_op_double" "max_ratio entry_no_op_double \<le> 2 ^ 500"
    "\<bar>calibrated_tps entry_no_op_double\<bar> \<le> 2 ^ 500"
    by (simp_all add: test_no_op_def table_no_op_double_def fields)
  have powers:
    "\<bar>nearest_pow (min_ratio entry_no_op_double) (round_double (8 / 10))\<bar> \<le> 2 ^ 500"
    "\<bar>nearest_pow (max_ratio entry_no_op_double) (round_double (8 / 10))\<bar> \<le> 2 ^ 500"
    unfolding fields exponent by (rule nearest_pow_within; simp)+
  have lower: "round_double (calibrated_tps entry_no_op_double
        * round_double
            (round_double
               (1 - round_double
                      (round_double (1 - min_ratio entry_no_op_double)
                       * round_double
                           (1 + round_double
                                  (10 / round_double (real_of_int (count entry_no_op_double))))))
             - round_double (1 / round_double (real_of_int (count entry_no_op_double)))))
      = 589829903164113 / 17179869184"
    unfolding fields by (simp add: double_steps del: scale_mantissa.simps)
  have upper: "round_double (calibrated_tps entry_no_op_double
        * round_double
            (round_double
               (1 + round_double
                      (round_double (max_ratio entry_no_op_double - 1)
                       * round_double
                           (1 + round_double
                                  (10 / round_double (real_of_int (count entry_no_op_double))))))
             + round_double (1 / round_double (real_of_int (count entry_no_op_double)))))
      = 6852795555433677 / 137438953472"
    unfolding fields by (simp add: double_steps del: scale_mantissa.simps)
  from calibrated_criteria_formula [of test_no_op table_no_op_double entry_no_op_double
      nearest_pow default_env, OF h powers]
  have "compute_criteria_double nearest_pow default_env test_no_op table_no_op_double
       = Inr (Some \<lparr>
           expected_tps = calibrated_tps entry_no_op_double,
           min_tps = 589829903164113 / 17179869184,
           min_warn_tps = round_double (calibrated_tps entry_no_op_double
             * nearest_pow (min_ratio entry_no_op_double) (round_double (8 / 10))),
           max_tps = 6852795555433677 / 137438953472,
           max_warn_tps = round_double (calibrated_tps entry_no_op_double
             * nearest_pow (max_ratio entry_no_op_double) (round_double (8 / 10))) \<rparr>)"
    unfolding lower upper .
  with h(1,2,3,5,7) fields(1) show ?thesis
    by (intro conjI)
qed

text \<open>
  Claim C4. A test with a static override (of a magnitude up to \<open>2^1000\<close>, so that the
  products are finite) gets its criteria from the override alone, as the products of
  the override with the fixed multipliers \<^verbatim>\<open>NOISE_LOWER_LIMIT\<close>, 0.90, 1.15 and 1.05
  (products of doubles, rounded to the nearest double), whatever the calibration table
  holds: two tables give the same criteria.
\<close>

theorem override_criteria_ignore_table:
  assumes "override_tps test = Some e" and "\<bar>e\<bar> \<le> 2 ^ 1000"
  shows "compute_criteria_double libm_pow env test table = Inr (Some \<lparr>
      expected_tps = e,
      min_tps = round_double (round_double e * round_double (NOISE_LOWER_LIMIT env)),
      min_warn_tps = round_double (round_double e * round_double (90 / 100)),
      max_tps = round_double (round_double e * round_double (115 / 100)),
      max_warn_tps = round_double (round_double e * round_double (105 / 100)) \<rparr>)
    \<and> compute_criteria_double libm_pow env test table
        = compute_criteria_double libm_pow env test table'"
proof -
  note f = float_result_within [OF assms(2)]
  from f(1) have conv: "float_of_number e = Inr (round_double e)"
    by (simp add: float_of_number_def float_result_def split: if_splits)
  have product: "float_mul (round_double e) (round_double d)
      = Some (round_double (round_double e * round_double d))" if "\<bar>d\<bar> \<le> 2" for d
  proof -
    from that have "\<bar>round_double d\<bar> \<le> 2 ^ 1" by (intro round_double_le) simp
    from float_mul_within(1) [OF f(2) this] show ?thesis by simp
  qed
  have noise: "\<bar>NOISE_LOWER_LIMIT env\<bar> \<le> 2" by (simp add: NOISE_LOWER_LIMIT_def)
  have any: "compute_criteria_double libm_pow env test t = Inr (Some \<lparr>
      expected_tps = e,
      min_tps = round_double (round_double e * round_double (NOISE_LOWER_LIMIT env)),
      min_warn_tps = round_double (round_double e * round_double (90 / 100)),
      max_tps = round_double (round_double e * round_double (115 / 100)),
      max_warn_tps = round_double (round_double e * round_double (105 / 100)) \<rparr>)" for t
    by (simp add: compute_criteria_double_def assms(1) conv float_literal_def
        NOISE_LOWER_LIMIT_WARN_def NOISE_UPPER_LIMIT_def NOISE_UPPER_LIMIT_WARN_def
        product noise)
  show ?thesis by (simp only: any)
qed

theorem override_criteria_ignore_table_witness:
  "override_tps test_connected_components = Some 50000
   \<and> compute_criteria_double nearest_pow representative_env test_connected_components
        [key test_connected_components \<mapsto> entry_no_op_double]
       = Inr (Some \<lparr> expected_tps = 50000, min_tps = 40000, min_warn_tps = 45000,
                      max_tps = 7902739824639999 / 137438953472, max_warn_tps = 52500 \<rparr>)
   \<and> compute_criteria_double nearest_pow representative_env test_connected_components
        [key test_connected_components \<mapsto> entry_no_op_double]
       = compute_criteria_double nearest_pow representative_env test_connected_components
           Map.empty"
proof -
  have h: "override_tps test_connected_components = Some 50000"
    by (simp add: test_connected_components_def)
  have size: "\<bar>50000 :: real\<bar> \<le> 2 ^ 1000" by simp
  have n: "NOISE_LOWER_LIMIT representative_env = 8 / 10"
    by (simp add: representative_env_def default_env_def NOISE_LOWER_LIMIT_def IS_MAINNET_def)
  have products: "round_double (round_double 50000 * round_double (8 / 10)) = 40000"
    "round_double (round_double 50000 * round_double (90 / 100)) = 45000"
    "round_double (round_double 50000 * round_double (115 / 100))
       = 7902739824639999 / 137438953472"
    "round_double (round_double 50000 * round_double (105 / 100)) = 52500"
    by (simp_all add: double_steps del: scale_mantissa.simps)
  from override_criteria_ignore_table [OF h size, of nearest_pow representative_env
      "[key test_connected_components \<mapsto> entry_no_op_double]" Map.empty]
  show ?thesis
    unfolding n products using h by blast
qed








section \<open>Classification\<close>

text \<open>
  Claim C2. The measured tps is classified by the first tier that matches, in this
  order: below \<open>min_tps\<close>, a regression, recorded as an error unless the test is
  waived and as a warning then; otherwise below \<open>min_warn_tps\<close>, a warning whether
  the test is waived or not; otherwise, outside the mainnet flows only, above
  \<open>max_tps\<close>, an improvement, an error unless waived and a warning then; otherwise,
  outside the mainnet flows only, above \<open>max_warn_tps\<close>, a warning; otherwise
  nothing is recorded. The improvement tiers are suppressed exactly under
  \<^verbatim>\<open>MAINNET\<close> and \<^verbatim>\<open>MAINNET_LARGE_DB\<close>.
\<close>

theorem classify_first_matching_tier:
  "(v < min_tps c \<and> \<not> waived test \<longrightarrow>
      classify env test c v rep
        = rep\<lparr>errors := errors rep @ [RegressionDetected v (expected_tps c) (min_tps c) (key test)]\<rparr>)
   \<and> (v < min_tps c \<and> waived test \<longrightarrow>
      classify env test c v rep
        = rep\<lparr>warnings := warnings rep @ [RegressionDetected v (expected_tps c) (min_tps c) (key test)]\<rparr>)
   \<and> (\<not> v < min_tps c \<and> v < min_warn_tps c \<longrightarrow>
      classify env test c v rep
        = rep\<lparr>warnings := warnings rep
            @ [PotentialRegression v (expected_tps c) (min_warn_tps c) (key test)]\<rparr>)
   \<and> (\<not> v < min_tps c \<and> \<not> v < min_warn_tps c
        \<and> SELECTED_FLOW env \<notin> {MAINNET, MAINNET_LARGE_DB} \<and> max_tps c < v \<and> \<not> waived test \<longrightarrow>
      classify env test c v rep
        = rep\<lparr>errors := errors rep
            @ [PerfImprovementDetected v (expected_tps c) (max_tps c) (key test)]\<rparr>)
   \<and> (\<not> v < min_tps c \<and> \<not> v < min_warn_tps c
        \<and> SELECTED_FLOW env \<notin> {MAINNET, MAINNET_LARGE_DB} \<and> max_tps c < v \<and> waived test \<longrightarrow>
      classify env test c v rep
        = rep\<lparr>warnings := warnings rep
            @ [PerfImprovementDetected v (expected_tps c) (max_tps c) (key test)]\<rparr>)
   \<and> (\<not> v < min_tps c \<and> \<not> v < min_warn_tps c
        \<and> SELECTED_FLOW env \<notin> {MAINNET, MAINNET_LARGE_DB} \<and> \<not> max_tps c < v
        \<and> max_warn_tps c < v \<longrightarrow>
      classify env test c v rep
        = rep\<lparr>warnings := warnings rep
            @ [PotentialPerfImprovement v (expected_tps c) (max_warn_tps c) (key test)]\<rparr>)
   \<and> (\<not> v < min_tps c \<and> \<not> v < min_warn_tps c
        \<and> (SELECTED_FLOW env \<in> {MAINNET, MAINNET_LARGE_DB}
            \<or> \<not> max_tps c < v \<and> \<not> max_warn_tps c < v) \<longrightarrow>
      classify env test c v rep = rep)
   \<and> (SKIP_PERF_IMPROVEMENT_NOTICE env \<longleftrightarrow> SELECTED_FLOW env \<in> {MAINNET, MAINNET_LARGE_DB})"
  by (simp add: classify_def SKIP_PERF_IMPROVEMENT_NOTICE_def IS_MAINNET_def Let_def)

theorem classify_first_matching_tier_witness:
  "classify default_env test_no_op criteria_1000 700 empty_report
     = \<lparr> errors = [RegressionDetected 700 1000 800 (key test_no_op)], warnings = [] \<rparr>
   \<and> classify agg_v2_env test_agg_v2 criteria_1000 700 empty_report
     = \<lparr> errors = [], warnings = [RegressionDetected 700 1000 800 (key test_agg_v2)] \<rparr>
   \<and> classify default_env test_no_op criteria_1000 850 empty_report
     = \<lparr> errors = [], warnings = [PotentialRegression 850 1000 900 (key test_no_op)] \<rparr>
   \<and> classify default_env test_no_op criteria_1000 1200 empty_report
     = \<lparr> errors = [PerfImprovementDetected 1200 1000 1150 (key test_no_op)], warnings = [] \<rparr>
   \<and> classify agg_v2_env test_agg_v2 criteria_1000 1200 empty_report
     = \<lparr> errors = [], warnings = [PerfImprovementDetected 1200 1000 1150 (key test_agg_v2)] \<rparr>
   \<and> classify default_env test_no_op criteria_1000 1100 empty_report
     = \<lparr> errors = [], warnings = [PotentialPerfImprovement 1100 1000 1050 (key test_no_op)] \<rparr>
   \<and> classify default_env test_no_op criteria_1000 1000 empty_report = empty_report
   \<and> classify large_db_env test_large_db criteria_1000 1200 empty_report = empty_report"
proof -
  have w: "\<not> waived test_no_op" "waived test_agg_v2"
    by (simp_all add: test_no_op_def test_agg_v2_def)
  have f: "SELECTED_FLOW default_env = LAND_BLOCKING" "SELECTED_FLOW agg_v2_env = AGG_V2"
    "SELECTED_FLOW large_db_env = MAINNET_LARGE_DB"
    by (simp_all add: default_env_def agg_v2_env_def large_db_env_def)
  have c: "expected_tps criteria_1000 = 1000" "min_tps criteria_1000 = 800"
    "min_warn_tps criteria_1000 = 900" "max_tps criteria_1000 = 1150"
    "max_warn_tps criteria_1000 = 1050"
    by (simp_all add: criteria_1000_def)
  show ?thesis
    using classify_first_matching_tier [of 700 criteria_1000 test_no_op default_env empty_report]
      classify_first_matching_tier [of 700 criteria_1000 test_agg_v2 agg_v2_env empty_report]
      classify_first_matching_tier [of 850 criteria_1000 test_no_op default_env empty_report]
      classify_first_matching_tier [of 1200 criteria_1000 test_no_op default_env empty_report]
      classify_first_matching_tier [of 1200 criteria_1000 test_agg_v2 agg_v2_env empty_report]
      classify_first_matching_tier [of 1100 criteria_1000 test_no_op default_env empty_report]
      classify_first_matching_tier [of 1000 criteria_1000 test_no_op default_env empty_report]
      classify_first_matching_tier [of 1200 criteria_1000 test_large_db large_db_env empty_report]
    by (simp add: w f c empty_report_def)
qed


section \<open>Selection of tests\<close>

text \<open>
  Claim C5, as stated: a test is executed if and only if the active flow is in its
  \<^verbatim>\<open>included_in\<close>. It fails in the default environment, where \<^verbatim>\<open>SKIP_NATIVE\<close>
  is on: the native-executor test of source line 213 is in \<^verbatim>\<open>LAND_BLOCKING\<close>, and
  the loop passes over it without running anything.
\<close>

theorem executed_counterexample:
  "flow_in (flow_value (SELECTED_FLOW default_env)) (included_in test_native)
   \<and> \<not> executed default_env test_native
   \<and> run_test default_env (\<lambda>history. (0, [])) Map.empty test_native initial_state
       = (None, initial_state)"
  by (simp add: executed_def run_test_def default_env_def test_native_def flow_in_def
      LAND_BLOCKING_AND_C_def flow_union_def)

text \<open>
  Claim C5, amended. A test is executed if and only if the active flow is in its
  \<^verbatim>\<open>included_in\<close> and it is not the case that \<^verbatim>\<open>SKIP_NATIVE\<close> is on and its
  executor type is \<^verbatim>\<open>"native"\<close>; an iteration of the loop runs the body for an
  executed test and does nothing for any other.
\<close>

theorem executed_iff:
  "(executed env test \<longleftrightarrow>
      flow_in (flow_value (SELECTED_FLOW env)) (included_in test)
      \<and> \<not> (SKIP_NATIVE env \<and> executor_type (key test) = ''native''))
   \<and> run_test env proc table test st
       = (if executed env test then test_body env proc table test st else (None, st))"
  by (simp add: executed_def run_test_def)

theorem executed_iff_witness:
  "executed default_env test_no_op \<and> \<not> executed default_env test_native
   \<and> \<not> executed default_env test_agg_v2
   \<and> executed (default_env\<lparr>SKIP_NATIVE := False\<rparr>) test_native"
  using executed_iff [of default_env test_no_op] executed_iff [of default_env test_native]
    executed_iff [of default_env test_agg_v2]
    executed_iff [of "default_env\<lparr>SKIP_NATIVE := False\<rparr>" test_native]
  by (simp add: default_env_def test_no_op_def test_native_def test_agg_v2_def flow_in_def
      LAND_BLOCKING_AND_C_def flow_union_def)

section \<open>Parsing the calibration table\<close>

lemma parse_row_nonempty: "parse_row parts = Inr kd \<Longrightarrow> parts \<noteq> []"
  by (auto simp: parse_row_def py_index_def)

lemma build_table_append:
  "build_table (xs @ ys) t =
     (case build_table xs t of Inl e \<Rightarrow> Inl e | Inr t' \<Rightarrow> build_table ys t')"
  by (induction xs arbitrary: t) (auto split: sum.splits)

lemma build_table_ok:
  assumes "\<forall>l\<in>set ls. line_parts l \<noteq> [] \<longrightarrow> (\<exists>kd. parse_row (line_parts l) = Inr kd)"
  shows "\<exists>T. build_table ls t = Inr T"
  using assms
proof (induction ls arbitrary: t)
  case Nil
  then show ?case by simp
next
  case (Cons l ls)
  show ?case
  proof (cases "line_parts l = []")
    case True
    with Cons show ?thesis by simp
  next
    case False
    with Cons.prems obtain k d where "parse_row (line_parts l) = Inr (k, d)" by fastforce
    with False Cons show ?thesis by (cases "line_parts l") auto
  qed
qed

lemma build_table_keeps:
  assumes "build_table ls t = Inr T" and "t k = Some d"
    and "\<forall>l\<in>set ls. \<forall>d'. parse_row (line_parts l) \<noteq> Inr (k, d')"
  shows "T k = Some d"
  using assms
proof (induction ls arbitrary: t)
  case Nil
  then show ?case by simp
next
  case (Cons l ls)
  show ?case
  proof (cases "length (line_parts l) \<ge> 1")
    case False
    with Cons show ?thesis by simp
  next
    case True
    with Cons.prems(1) obtain k' d' where p: "parse_row (line_parts l) = Inr (k', d')"
      and b: "build_table ls (t(k' \<mapsto> d')) = Inr T"
      by (auto split: sum.splits)
    from p Cons.prems(3) have "k' \<noteq> k" by auto
    with Cons.prems(2) have "(t(k' \<mapsto> d')) k = Some d" by simp
    with Cons.IH [OF b] Cons.prems(3) show ?thesis by simp
  qed
qed

text \<open>
  Claim C10. When the calibration text has several rows with the same key (transaction
  type, module working set size, executor type), parsing raises nothing on that account
  and the table maps the key to the statistics of the last such row: if the other
  rows parse, the whole text parses, and the entry of a key is that of the last row
  with this key, whatever rows with the same key come earlier. No relation between
  \<^verbatim>\<open>min_ratio\<close>, 1 and \<^verbatim>\<open>max_ratio\<close> is checked: a row of seven fields whose numbers
  convert is accepted with these numbers as they are.
\<close>

theorem duplicate_rows_last_wins:
  "(split_char CHR 0x0A CALIBRATION = earlier @ [line] @ later
      \<and> parse_row (line_parts line) = Inr (k, d)
      \<and> (\<forall>l\<in>set later. \<forall>d'. parse_row (line_parts l) \<noteq> Inr (k, d'))
      \<and> (\<forall>l\<in>set (earlier @ later). line_parts l \<noteq> [] \<longrightarrow> (\<exists>kd. parse_row (line_parts l) = Inr kd))
    \<longrightarrow> (\<exists>T. parse_calibration CALIBRATION = Inr T \<and> T k = Some d))
   \<and> (py_int w = Inr v_size \<and> py_int c = Inr v_count \<and> py_float lo = Inr v_min
        \<and> py_float hi = Inr v_max \<and> py_float m = Inr v_tps
    \<longrightarrow> parse_row [t, w, x, c, lo, hi, m]
          = Inr (\<lparr> transaction_type = t, module_working_set_size = v_size, executor_type = x \<rparr>,
                 \<lparr> calibrated_tps = v_tps, count = v_count, min_ratio = v_min, max_ratio = v_max \<rparr>))"
proof (intro conjI impI)
  assume a: "split_char CHR 0x0A CALIBRATION = earlier @ [line] @ later
      \<and> parse_row (line_parts line) = Inr (k, d)
      \<and> (\<forall>l\<in>set later. \<forall>d'. parse_row (line_parts l) \<noteq> Inr (k, d'))
      \<and> (\<forall>l\<in>set (earlier @ later). line_parts l \<noteq> [] \<longrightarrow> (\<exists>kd. parse_row (line_parts l) = Inr kd))"
  then have row: "parse_row (line_parts line) = Inr (k, d)" by simp
  then have ne: "length (line_parts line) \<ge> 1"
    using parse_row_nonempty [of "line_parts line"] by (cases "line_parts line") auto
  from a have "\<forall>l\<in>set earlier. line_parts l \<noteq> [] \<longrightarrow> (\<exists>kd. parse_row (line_parts l) = Inr kd)"
    by simp
  from build_table_ok [OF this] obtain T1 where T1: "build_table earlier Map.empty = Inr T1"
    by blast
  from a have "\<forall>l\<in>set later. line_parts l \<noteq> [] \<longrightarrow> (\<exists>kd. parse_row (line_parts l) = Inr kd)"
    by simp
  from build_table_ok [OF this] obtain T where T: "build_table later (T1(k \<mapsto> d)) = Inr T"
    by blast
  from a have "\<forall>l\<in>set later. \<forall>d'. parse_row (line_parts l) \<noteq> Inr (k, d')" by simp
  with build_table_keeps [OF T, of k d] have "T k = Some d" by simp
  moreover have "parse_calibration CALIBRATION = Inr T"
    using a T1 T row ne by (simp add: parse_calibration_def build_table_append)
  ultimately show "\<exists>T. parse_calibration CALIBRATION = Inr T \<and> T k = Some d" by blast
next
  assume "py_int w = Inr v_size \<and> py_int c = Inr v_count \<and> py_float lo = Inr v_min
        \<and> py_float hi = Inr v_max \<and> py_float m = Inr v_tps"
  then show "parse_row [t, w, x, c, lo, hi, m]
          = Inr (\<lparr> transaction_type = t, module_working_set_size = v_size, executor_type = x \<rparr>,
                 \<lparr> calibrated_tps = v_tps, count = v_count, min_ratio = v_min, max_ratio = v_max \<rparr>)"
    by (simp add: parse_row_def py_index_def CALIBRATED_TPS_INDEX_def CALIBRATED_COUNT_INDEX_def
        CALIBRATED_MIN_RATIO_INDEX_def CALIBRATED_MAX_RATIO_INDEX_def)
qed


lemma row_first_parts:
  "line_parts row_first = [''no-op'', ''1'', ''VM'', ''15'', ''1.5'', ''0.5'', ''100'']"
  by (simp add: row_first_def line_parts_def strip_def is_space_def CALIBRATION_SEPARATOR_def)

lemma row_second_parts:
  "line_parts row_second = [''no-op'', ''1'', ''VM'', ''8'', ''0.9'', ''1.1'', ''200'']"
  by (simp add: row_second_def line_parts_def strip_def is_space_def CALIBRATION_SEPARATOR_def)

lemma empty_line_parts: "line_parts [] = []"
  by (simp add: line_parts_def strip_def)

lemma duplicate_rows_lines:
  "split_char CHR 0x0A duplicate_rows = [[], row_first] @ [row_second] @ [[]]"
  by (simp add: duplicate_rows_def row_first_def row_second_def)

lemma row_first_parsed:
  "parse_row [''no-op'', ''1'', ''VM'', ''15'', ''1.5'', ''0.5'', ''100'']
     = Inr (key test_no_op,
            \<lparr> calibrated_tps = 100, count = 15, min_ratio = 3 / 2, max_ratio = 1 / 2 \<rparr>)"
  by (simp add: parse_row_def py_index_def CALIBRATED_TPS_INDEX_def CALIBRATED_COUNT_INDEX_def
      CALIBRATED_MIN_RATIO_INDEX_def CALIBRATED_MAX_RATIO_INDEX_def py_int_def py_float_def
      strip_sign_def is_digit_def digits_val_def digit_val_def test_no_op_def)

lemma row_second_parsed:
  "parse_row [''no-op'', ''1'', ''VM'', ''8'', ''0.9'', ''1.1'', ''200'']
     = Inr (key test_no_op,
            \<lparr> calibrated_tps = 200, count = 8, min_ratio = 9 / 10, max_ratio = 11 / 10 \<rparr>)"
  by (simp add: parse_row_def py_index_def CALIBRATED_TPS_INDEX_def CALIBRATED_COUNT_INDEX_def
      CALIBRATED_MIN_RATIO_INDEX_def CALIBRATED_MAX_RATIO_INDEX_def py_int_def py_float_def
      strip_sign_def is_digit_def digits_val_def digit_val_def test_no_op_def)

theorem duplicate_rows_last_wins_witness:
  "(case parse_calibration duplicate_rows of
      Inl e \<Rightarrow> None
    | Inr T \<Rightarrow> T (key test_no_op))
     = Some \<lparr> calibrated_tps = 200, count = 8, min_ratio = 9 / 10, max_ratio = 11 / 10 \<rparr>
   \<and> parse_row (line_parts row_first)
     = Inr (key test_no_op,
            \<lparr> calibrated_tps = 100, count = 15, min_ratio = 3 / 2, max_ratio = 1 / 2 \<rparr>)"
proof -
  have conv: "py_int ''1'' = Inr 1" "py_int ''15'' = Inr 15" "py_float ''1.5'' = Inr (3 / 2)"
    "py_float ''0.5'' = Inr (1 / 2)" "py_float ''100'' = Inr 100"
    by (simp_all add: py_int_def py_float_def strip_sign_def is_digit_def digits_val_def
        digit_val_def)
  have as_is: "parse_row (line_parts row_first)
     = Inr (key test_no_op,
            \<lparr> calibrated_tps = 100, count = 15, min_ratio = 3 / 2, max_ratio = 1 / 2 \<rparr>)"
    using conv duplicate_rows_last_wins
      [of duplicate_rows "[[], row_first]" row_second "[[]]" "key test_no_op"
        "\<lparr> calibrated_tps = 200, count = 8, min_ratio = 9 / 10, max_ratio = 11 / 10 \<rparr>"
        "''1''" 1 "''15''" 15 "''1.5''" "3 / 2" "''0.5''" "1 / 2" "''100''" 100 "''no-op''" "''VM''"]
    by (simp add: row_first_parts test_no_op_def)
  have empty_row: "parse_row [] = Inl IndexError"
    by (simp add: parse_row_def py_index_def)
  have h1: "split_char CHR 0x0A duplicate_rows = [[], row_first] @ [row_second] @ [[]]"
    by (rule duplicate_rows_lines)
  have h2: "parse_row (line_parts row_second) = Inr (key test_no_op,
      \<lparr> calibrated_tps = 200, count = 8, min_ratio = 9 / 10, max_ratio = 11 / 10 \<rparr>)"
    by (simp only: row_second_parts row_second_parsed)
  have h3: "\<forall>l\<in>set [[]]. \<forall>d'. parse_row (line_parts l) \<noteq> Inr (key test_no_op, d')"
    by (simp add: empty_line_parts empty_row)
  have h4: "\<forall>l\<in>set ([[], row_first] @ [[]]).
      line_parts l \<noteq> [] \<longrightarrow> (\<exists>kd. parse_row (line_parts l) = Inr kd)"
    by (simp add: empty_line_parts row_first_parts row_first_parsed)
  have last_row: "\<exists>T. parse_calibration duplicate_rows = Inr T \<and> T (key test_no_op)
     = Some \<lparr> calibrated_tps = 200, count = 8, min_ratio = 9 / 10, max_ratio = 11 / 10 \<rparr>"
    using h1 h2 h3 h4 duplicate_rows_last_wins
      [of duplicate_rows "[[], row_first]" row_second "[[]]" "key test_no_op"
        "\<lparr> calibrated_tps = 200, count = 8, min_ratio = 9 / 10, max_ratio = 11 / 10 \<rparr>"]
    by blast
  then show ?thesis
    using as_is by auto
qed

section \<open>Scanning a text line by line\<close>

text \<open>
  A character \<open>c\<close> that occurs neither in the literal parts of a pattern nor in a
  number cuts the text for the scan: a match never runs across it.
\<close>

lemma strip_prefix_sep:
  "c \<notin> set p \<Longrightarrow> strip_prefix p (a @ c # b) = map_option (\<lambda>r. r @ c # b) (strip_prefix p a)"
  by (induction p a rule: strip_prefix.induct) auto

lemma takeWhile_sep: "\<not> P c \<Longrightarrow> takeWhile P (a @ c # b) = takeWhile P a"
  by (induction a) auto

lemma dropWhile_sep: "\<not> P c \<Longrightarrow> dropWhile P (a @ c # b) = dropWhile P a @ c # b"
  by (induction a) auto

lemma opt_char_sep:
  "x \<noteq> c \<Longrightarrow> opt_char x (a @ c # b) = (case opt_char x a of (m, r) \<Rightarrow> (m, r @ c # b))"
  by (cases a) (auto simp: opt_char_def)

lemma match_at_sep:
  assumes "c \<notin> set lead" and "c \<notin> set trail"
    and "\<not> is_digit c" and "c \<noteq> CHR ''.''" and "c \<noteq> CHR ''-''"
  shows "match_at signed lead trail (a @ c # b)
     = map_option (\<lambda>(captured, rest). (captured, rest @ c # b)) (match_at signed lead trail a)"
  using assms
  by (auto simp: match_at_def strip_prefix_sep opt_char_sep takeWhile_sep dropWhile_sep Let_def
      split: option.splits prod.splits)

lemma match_at_Nil: "match_at signed lead trail [] = None"
  by (cases lead) (auto simp: match_at_def opt_char_def)

lemma findall_from_sep:
  assumes "c \<notin> set lead" and "c \<notin> set trail"
    and "\<not> is_digit c" and "c \<noteq> CHR ''.''" and "c \<noteq> CHR ''-''"
    and "k \<le> length a"
  shows "findall_from signed lead trail k (a @ c # b)
     = findall_from signed lead trail k a @ findall_from signed lead trail 0 b"
  using assms(6)
proof (induction a arbitrary: k)
  case Nil
  then show ?case
    using match_at_sep [OF assms(1-5), of signed "[]" b] by (simp add: match_at_Nil)
next
  case (Cons x xs)
  show ?case
  proof (cases "0 < k")
    case True
    with Cons show ?thesis by simp
  next
    case False
    then show ?thesis
      using match_at_sep [OF assms(1-5), of signed "x # xs" b] Cons.IH
      by (auto split: option.splits)
  qed
qed

lemma findall_unlines:
  assumes "CHR 0x0A \<notin> set lead" and "CHR 0x0A \<notin> set trail"
  shows "findall signed lead trail (unlines ls) = concat (map (findall signed lead trail) ls)"
proof (induction ls)
  case Nil
  then show ?case by (simp add: findall_def)
next
  case (Cons l ls)
  have "findall_from signed lead trail 0 (l @ CHR 0x0A # unlines ls)
     = findall_from signed lead trail 0 l @ findall_from signed lead trail 0 (unlines ls)"
    using assms by (intro findall_from_sep) (simp_all add: is_digit_def)
  with Cons show ?case
    by (simp add: findall_def)
qed

lemma contains_sep:
  assumes "c \<notin> set p" and "p \<noteq> []"
  shows "contains p (a @ c # b) = (contains p a \<or> contains p b)"
proof (induction a)
  case Nil
  from assms have "strip_prefix p (c # b) = None"
    by (cases p) auto
  with assms show ?case
    by simp
next
  case (Cons x xs)
  have "strip_prefix p (x # xs @ c # b) = map_option (\<lambda>r. r @ c # b) (strip_prefix p (x # xs))"
    using strip_prefix_sep [OF assms(1), of "x # xs" b] by simp
  with Cons show ?case
    by (cases "strip_prefix p (x # xs)") simp_all
qed

lemma contains_unlines:
  assumes "CHR 0x0A \<notin> set p" and "p \<noteq> []"
  shows "contains p (unlines ls) = list_ex (contains p) ls"
  using assms by (induction ls) (auto simp: contains_sep)

text \<open>The steps of a scan, one for each way in which a position is passed.\<close>

lemma match_at_Cons:
  "match_at signed (l # lead) trail (c # cs)
     = (if l = c then match_at signed lead trail cs else None)"
  by (simp add: match_at_def)

lemma match_at_Cons_Nil: "match_at signed (l # lead) trail [] = None"
  by (simp add: match_at_def)

lemma match_at_number:
  "match_at signed [] trail s =
     (case (if signed then opt_char CHR ''-'' s else ([], s)) of
        (sign_part, r2) \<Rightarrow>
          (let ds = takeWhile is_digit r2;
               r3 = dropWhile is_digit r2
           in if ds = [] then None
              else
                (case opt_char CHR ''.'' r3 of
                   (dot_part, r4) \<Rightarrow>
                     (let fs = takeWhile is_digit r4;
                          r5 = dropWhile is_digit r4
                      in case strip_prefix trail r5 of
                           None \<Rightarrow> None
                         | Some rest \<Rightarrow> Some (sign_part @ ds @ dot_part @ fs, rest)))))"
  by (simp add: match_at_def)

lemma scan_miss:
  "l \<noteq> c \<Longrightarrow> findall_from signed (l # lead) trail 0 (c # cs)
     = findall_from signed (l # lead) trail 0 cs"
  by (simp add: match_at_Cons)

lemma scan_hit:
  "findall_from signed (c # lead) trail 0 (c # cs) =
     (case match_at signed lead trail cs of
        None \<Rightarrow> findall_from signed (c # lead) trail 0 cs
      | Some (captured, rest) \<Rightarrow>
          captured # findall_from signed (c # lead) trail (length cs - length rest) cs)"
  by (simp add: match_at_Cons)

lemma scan_skip:
  "findall_from signed lead trail (Suc k) (c # cs) = findall_from signed lead trail k cs"
  by simp

lemma scan_end: "findall_from signed lead trail k [] = []"
  by simp

lemmas scan_steps =
  findall_def scan_miss scan_hit scan_skip scan_end match_at_Cons match_at_Cons_Nil
  match_at_number opt_char_def is_digit_def

lemmas float_steps = py_float_def strip_sign_def is_digit_def digits_val_def digit_val_def

section \<open>Extraction of the metrics\<close>

text \<open>Whatever a pattern captures is a decimal literal, so \<^verbatim>\<open>float\<close> does not raise on it.\<close>

lemma py_float_number:
  assumes "ds \<noteq> []" and "list_all is_digit ds" and "list_all is_digit fs"
    and "sp = [] \<or> sp = [CHR ''-'']" and "dp = [] \<and> fs = [] \<or> dp = [CHR ''.'']"
  shows "\<exists>v. py_float (sp @ ds @ dp @ fs) = Inr v"
proof -
  from assms(1) obtain d ds' where ds: "ds = d # ds'"
    by (cases ds) auto
  with assms(2) have d: "is_digit d"
    by simp
  then have dn: "d \<noteq> CHR ''-''" "d \<noteq> CHR ''+''"
    by (auto simp: is_digit_def)
  have all: "\<And>x. x \<in> set ds \<Longrightarrow> is_digit x"
    using assms(2) by (simp add: list_all_iff)
  have sign: "\<exists>neg. strip_sign (sp @ ds @ dp @ fs) = (neg, ds @ dp @ fs)"
    using assms(4) ds dn by (auto simp: strip_sign_def)
  have tw: "takeWhile is_digit (ds @ dp @ fs) = ds"
    using assms(5) all by (auto simp: takeWhile_append2 is_digit_def)
  have dw: "dropWhile is_digit (ds @ dp @ fs) = dp @ fs"
    using assms(5) all by (auto simp: dropWhile_append2 is_digit_def)
  from sign obtain neg where "strip_sign (sp @ ds @ dp @ fs) = (neg, ds @ dp @ fs)"
    by blast
  moreover have "takeWhile is_digit ds = ds" "dropWhile is_digit ds = []"
    using all by (simp_all add: takeWhile_eq_all_conv)
  ultimately show ?thesis
    using assms(1,3,5) tw dw by (auto simp: py_float_def Let_def)
qed

lemma opt_char_cases:
  "opt_char x s = ([], s) \<and> (s = [] \<or> hd s \<noteq> x) \<or> (\<exists>r. s = x # r \<and> opt_char x s = ([x], r))"
  by (cases s) (auto simp: opt_char_def)

lemma match_at_float:
  assumes "match_at signed lead trail s = Some (captured, rest)"
  shows "\<exists>v. py_float captured = Inr v"
proof -
  from assms obtain r1 sp r2 dp r4 where
    sp: "(if signed then opt_char CHR ''-'' r1 else ([], r1)) = (sp, r2)"
    and ds: "takeWhile is_digit r2 \<noteq> []"
    and dp: "opt_char CHR ''.'' (dropWhile is_digit r2) = (dp, r4)"
    and cap: "captured = sp @ takeWhile is_digit r2 @ dp @ takeWhile is_digit r4"
    by (auto simp: match_at_def Let_def split: option.splits prod.splits if_splits)
  have 1: "sp = [] \<or> sp = [CHR ''-'']"
    using sp opt_char_cases [of "CHR ''-''" r1] by (auto split: if_splits)
  have 2: "dp = [] \<and> takeWhile is_digit r4 = [] \<or> dp = [CHR ''.'']"
  proof (cases "dp = []")
    case True
    with dp opt_char_cases [of "CHR ''.''" "dropWhile is_digit r2"]
    have r4: "r4 = dropWhile is_digit r2"
      by auto
    have "takeWhile is_digit (dropWhile is_digit r2) = []"
      by (metis dropWhile_eq_Nil_conv hd_dropWhile takeWhile.simps(1) takeWhile_eq_Nil_iff)
    with True r4 show ?thesis
      by simp
  next
    case False
    with dp opt_char_cases [of "CHR ''.''" "dropWhile is_digit r2"] show ?thesis
      by auto
  qed
  have 3: "list_all is_digit (takeWhile is_digit r2)" "list_all is_digit (takeWhile is_digit r4)"
    by (auto simp: list_all_iff dest: set_takeWhileD)
  show ?thesis
    unfolding cap using py_float_number [OF ds 3 1 2] .
qed

lemma findall_from_float:
  "x \<in> set (findall_from signed lead trail k s) \<Longrightarrow> \<exists>v. py_float x = Inr v"
proof (induction s arbitrary: k)
  case Nil
  then show ?case by simp
next
  case (Cons c cs)
  then show ?case
    by (auto split: if_splits option.splits dest: match_at_float)
qed

lemma only_metric_cases:
  "only_metric signed lead trail output =
     (if length (findall signed lead trail output) = 1
      then Inr (projr (py_float (hd (findall signed lead trail output))))
      else Inl AssertionError)"
proof (cases "length (findall signed lead trail output) = 1")
  case True
  then obtain x where x: "findall signed lead trail output = [x]"
    by (cases "findall signed lead trail output") auto
  then have "x \<in> set (findall_from signed lead trail 0 output)"
    by (simp add: findall_def)
  then obtain v where "py_float x = Inr v"
    using findall_from_float by blast
  with x show ?thesis
    by (simp add: only_metric_def get_only_def)
next
  case False
  then show ?thesis
    by (simp add: only_metric_def get_only_def)
qed

lemma last_metric_cases:
  "last_metric lead trail output =
     (if findall False lead trail output = [] then Inl IndexError
      else Inr (projr (py_float (last (findall False lead trail output)))))"
proof (cases "findall False lead trail output = []")
  case True
  then show ?thesis
    by (simp add: last_metric_def last_of_def)
next
  case False
  then have "last (findall False lead trail output) \<in> set (findall_from False lead trail 0 output)"
    by (simp add: findall_def)
  then obtain v where "py_float (last (findall False lead trail output)) = Inr v"
    using findall_from_float by blast
  with False show ?thesis
    by (simp add: last_metric_def last_of_def)
qed

lemma last_metric_value:
  "findall False lead trail output \<noteq> [] \<Longrightarrow>
     py_float (last (findall False lead trail output))
       = Inr (projr (py_float (last (findall False lead trail output))))"
  using last_metric_cases [of lead trail "output"]
  by (auto simp: last_metric_def last_of_def split: sum.splits)

lemma repeated_fraction_scans:
  "findall False ''Overall TPS: '' '' txn/s'' repeated_fraction_output = [''500.0'']"
  "findall False ''Overall GPS: '' '' gas/s'' repeated_fraction_output = [''10'']"
  "findall False ''Overall effectiveGPS: '' '' gas/s'' repeated_fraction_output = [''11'']"
  "findall False ''Overall ioGPS: '' '' gas/s'' repeated_fraction_output = [''12'']"
  "findall False ''Overall executionGPS: '' '' gas/s'' repeated_fraction_output = [''13'']"
  "findall False ''Overall GPT: '' '' gas/txn'' repeated_fraction_output = [''14'']"
  "findall True ''Overall Storage fee: '' '' octas/txn'' repeated_fraction_output = [''-15'']"
  "findall False ''Overall output: '' '' bytes/s'' repeated_fraction_output = [''16'']"
  "findall False ''Overall fraction of total: '' '' in execution'' repeated_fraction_output
     = [''0.5'', ''0.7'']"
  "findall False ''Overall fraction of execution '' '' in VM'' repeated_fraction_output
     = [''0.25'']"
  "findall False ''Overall fraction of total: '' '' in commit'' repeated_fraction_output
     = [''0.125'']"
  unfolding repeated_fraction_output_def
  by (subst findall_unlines, simp, simp, simp add: scan_steps del: findall_from.simps)+

lemma repeated_fraction_extracted:
  "extract_run_results repeated_fraction_output ''Overall'' False
     = Inr \<lparr> tps = 500, gps = 10, effective_gps = 11, io_gps = 12, execution_gps = 13,
             gpt = 14, storage_fee_pt = - 15, output_bps = 16,
             fraction_in_execution = 7 / 10, fraction_of_execution_in_vm = 1 / 4,
             fraction_in_commit = 1 / 8 \<rparr>"
  by (simp add: extract_run_results_def only_metric_def last_metric_def get_only_def last_of_def
      repeated_fraction_scans float_steps)

text \<open>
  Claim C7, as stated: for every metric, zero or several matching lines raise an
  extraction error. It fails for the three fractions: with two lines for the fraction
  of time in execution, extraction succeeds and takes the value of the last line.
\<close>

theorem extraction_counterexample:
  "length (findall False (''Overall'' @ '' fraction of total: '') '' in execution''
             repeated_fraction_output) = 2
   \<and> extract_run_results repeated_fraction_output ''Overall'' False
     = Inr \<lparr> tps = 500, gps = 10, effective_gps = 11, io_gps = 12, execution_gps = 13,
             gpt = 14, storage_fee_pt = - 15, output_bps = 16,
             fraction_in_execution = 7 / 10, fraction_of_execution_in_vm = 1 / 4,
             fraction_in_commit = 1 / 8 \<rparr>"
  by (simp add: repeated_fraction_scans repeated_fraction_extracted)

text \<open>
  Claim C7, amended. For the eight rates extraction requires exactly one match: when
  a rate has no match or several, \<^verbatim>\<open>get_only\<close> raises. For the three fractions it
  requires at least one match: when the rates are in order and a fraction has no match,
  the index \<^verbatim>\<open>[-1]\<close> raises; when each fraction has one match or more, extraction
  succeeds and each fraction is the value of its last match. The warmup reads its one
  metric with \<^verbatim>\<open>get_only\<close> as well.
\<close>

theorem extraction_match_counts:
  "((\<exists>p\<in>set rate_patterns.
        length (findall (fst p) (prefix @ fst (snd p)) (snd (snd p)) output) \<noteq> 1)
      \<longrightarrow> extract_run_results output prefix False = Inl AssertionError)
   \<and> ((\<forall>p\<in>set rate_patterns.
          length (findall (fst p) (prefix @ fst (snd p)) (snd (snd p)) output) = 1)
        \<and> (\<exists>q\<in>set fraction_patterns. findall False (prefix @ fst q) (snd q) output = [])
      \<longrightarrow> extract_run_results output prefix False = Inl IndexError)
   \<and> ((\<forall>p\<in>set rate_patterns.
          length (findall (fst p) (prefix @ fst (snd p)) (snd (snd p)) output) = 1)
        \<and> (\<forall>q\<in>set fraction_patterns. findall False (prefix @ fst q) (snd q) output \<noteq> [])
      \<longrightarrow> (\<exists>r. extract_run_results output prefix False = Inr r
            \<and> py_float (last (findall False (prefix @ '' fraction of total: '')
                                '' in execution'' output))
                = Inr (fraction_in_execution r)
            \<and> py_float (last (findall False (prefix @ '' fraction of execution '')
                                '' in VM'' output))
                = Inr (fraction_of_execution_in_vm r)
            \<and> py_float (last (findall False (prefix @ '' fraction of total: '')
                                '' in commit'' output))
                = Inr (fraction_in_commit r)))
   \<and> (length (findall False ''Overall TPS: create_db: account creation: '' '' txn/s'' output)
          \<noteq> 1
      \<longrightarrow> extract_run_results output prefix True = Inl AssertionError)"
proof (intro conjI impI)
  assume "\<exists>p\<in>set rate_patterns.
        length (findall (fst p) (prefix @ fst (snd p)) (snd (snd p)) output) \<noteq> 1"
  then show "extract_run_results output prefix False = Inl AssertionError"
    by (auto simp: rate_patterns_def extract_run_results_def only_metric_cases)
next
  assume "(\<forall>p\<in>set rate_patterns.
          length (findall (fst p) (prefix @ fst (snd p)) (snd (snd p)) output) = 1)
        \<and> (\<exists>q\<in>set fraction_patterns. findall False (prefix @ fst q) (snd q) output = [])"
  then show "extract_run_results output prefix False = Inl IndexError"
    by (auto simp: rate_patterns_def fraction_patterns_def extract_run_results_def
        only_metric_cases last_metric_cases)
next
  assume a: "(\<forall>p\<in>set rate_patterns.
          length (findall (fst p) (prefix @ fst (snd p)) (snd (snd p)) output) = 1)
        \<and> (\<forall>q\<in>set fraction_patterns. findall False (prefix @ fst q) (snd q) output \<noteq> [])"
  then have f: "findall False (prefix @ '' fraction of total: '') '' in execution'' output \<noteq> []"
    "findall False (prefix @ '' fraction of execution '') '' in VM'' output \<noteq> []"
    "findall False (prefix @ '' fraction of total: '') '' in commit'' output \<noteq> []"
    by (simp_all add: fraction_patterns_def)
  have rate: "\<exists>v. only_metric sg (prefix @ nm) un output = Inr v"
    if "(sg, nm, un) \<in> set rate_patterns" for sg nm un
    using a that by (force simp: only_metric_cases)
  obtain v1 v2 v3 v4 v5 v6 v7 v8 where v:
    "only_metric False (prefix @ '' TPS: '') '' txn/s'' output = Inr v1"
    "only_metric False (prefix @ '' GPS: '') '' gas/s'' output = Inr v2"
    "only_metric False (prefix @ '' effectiveGPS: '') '' gas/s'' output = Inr v3"
    "only_metric False (prefix @ '' ioGPS: '') '' gas/s'' output = Inr v4"
    "only_metric False (prefix @ '' executionGPS: '') '' gas/s'' output = Inr v5"
    "only_metric False (prefix @ '' GPT: '') '' gas/txn'' output = Inr v6"
    "only_metric True (prefix @ '' Storage fee: '') '' octas/txn'' output = Inr v7"
    "only_metric False (prefix @ '' output: '') '' bytes/s'' output = Inr v8"
    using rate [of False "'' TPS: ''" "'' txn/s''"] rate [of False "'' GPS: ''" "'' gas/s''"]
      rate [of False "'' effectiveGPS: ''" "'' gas/s''"]
      rate [of False "'' ioGPS: ''" "'' gas/s''"]
      rate [of False "'' executionGPS: ''" "'' gas/s''"]
      rate [of False "'' GPT: ''" "'' gas/txn''"]
      rate [of True "'' Storage fee: ''" "'' octas/txn''"]
      rate [of False "'' output: ''" "'' bytes/s''"]
    unfolding rate_patterns_def by auto
  have l: "last_metric (prefix @ '' fraction of total: '') '' in execution'' output
      = py_float (last (findall False (prefix @ '' fraction of total: '')
                          '' in execution'' output))"
    "last_metric (prefix @ '' fraction of execution '') '' in VM'' output
      = py_float (last (findall False (prefix @ '' fraction of execution '')
                          '' in VM'' output))"
    "last_metric (prefix @ '' fraction of total: '') '' in commit'' output
      = py_float (last (findall False (prefix @ '' fraction of total: '')
                          '' in commit'' output))"
    using f by (simp_all add: last_metric_def last_of_def)
  obtain w1 w2 w3 where w:
    "py_float (last (findall False (prefix @ '' fraction of total: '')
                       '' in execution'' output)) = Inr w1"
    "py_float (last (findall False (prefix @ '' fraction of execution '')
                       '' in VM'' output)) = Inr w2"
    "py_float (last (findall False (prefix @ '' fraction of total: '')
                       '' in commit'' output)) = Inr w3"
    using last_metric_value [OF f(1)] last_metric_value [OF f(2)] last_metric_value [OF f(3)]
    by blast
  show "\<exists>r. extract_run_results output prefix False = Inr r
            \<and> py_float (last (findall False (prefix @ '' fraction of total: '')
                                '' in execution'' output))
                = Inr (fraction_in_execution r)
            \<and> py_float (last (findall False (prefix @ '' fraction of execution '')
                                '' in VM'' output))
                = Inr (fraction_of_execution_in_vm r)
            \<and> py_float (last (findall False (prefix @ '' fraction of total: '')
                                '' in commit'' output))
                = Inr (fraction_in_commit r)"
    using w by (simp add: extract_run_results_def v l)
next
  assume "length (findall False ''Overall TPS: create_db: account creation: '' '' txn/s'' output)
          \<noteq> 1"
  then show "extract_run_results output prefix True = Inl AssertionError"
    by (simp add: extract_run_results_def only_metric_cases)
qed

theorem extraction_match_counts_witness:
  "extract_run_results (unlines [''Overall TPS: 1 txn/s'', ''Overall TPS: 2 txn/s'']) ''Overall''
       False
     = Inl AssertionError
   \<and> extract_run_results [] ''Overall'' True = Inl AssertionError
   \<and> py_float (last (findall False (''Overall'' @ '' fraction of total: '') '' in execution''
                      repeated_fraction_output))
       = Inr (7 / 10)"
proof -
  have two: "findall False ''Overall TPS: '' '' txn/s''
      (unlines [''Overall TPS: 1 txn/s'', ''Overall TPS: 2 txn/s'']) = [''1'', ''2'']"
    by (subst findall_unlines, simp, simp, simp add: scan_steps del: findall_from.simps)
  have several: "\<exists>p\<in>set rate_patterns.
      length (findall (fst p) (''Overall'' @ fst (snd p)) (snd (snd p))
                (unlines [''Overall TPS: 1 txn/s'', ''Overall TPS: 2 txn/s''])) \<noteq> 1"
    using two by (simp add: rate_patterns_def)
  have none: "length (findall False ''Overall TPS: create_db: account creation: '' '' txn/s'' [])
      \<noteq> 1"
    by (simp add: findall_def)
  have rates: "\<forall>p\<in>set rate_patterns.
      length (findall (fst p) (''Overall'' @ fst (snd p)) (snd (snd p))
                repeated_fraction_output) = 1"
    by (simp add: rate_patterns_def repeated_fraction_scans)
  have fractions: "\<forall>q\<in>set fraction_patterns.
      findall False (''Overall'' @ fst q) (snd q) repeated_fraction_output \<noteq> []"
    by (simp add: fraction_patterns_def repeated_fraction_scans)
  note counts = extraction_match_counts
  from counts [of "''Overall''" "unlines [''Overall TPS: 1 txn/s'', ''Overall TPS: 2 txn/s'']"]
    several
  have 1: "extract_run_results (unlines [''Overall TPS: 1 txn/s'', ''Overall TPS: 2 txn/s''])
      ''Overall'' False = Inl AssertionError"
    by blast
  from counts [of "''Overall''" "[]"] none
  have 2: "extract_run_results [] ''Overall'' True = Inl AssertionError"
    by blast
  from counts [of "''Overall''" repeated_fraction_output] rates fractions
  obtain r where r: "extract_run_results repeated_fraction_output ''Overall'' False = Inr r"
    and l: "py_float (last (findall False (''Overall'' @ '' fraction of total: '')
                '' in execution'' repeated_fraction_output)) = Inr (fraction_in_execution r)"
    by blast
  from r have "fraction_in_execution r = 7 / 10"
    by (auto simp: repeated_fraction_extracted)
  with 1 2 l show ?thesis
    by simp
qed

section \<open>Stage results\<close>

lemma execute_command_state:
  "execute_command proc cmd st = (r, st') \<Longrightarrow> st' = st\<lparr>launched := launched st @ [cmd]\<rparr>"
  by (auto simp: execute_command_def Let_def split: prod.splits if_splits)

lemma execute_command_output:
  "execute_command proc cmd st = (Inr out, st') \<Longrightarrow> proc (launched st') = (0, out)"
  by (auto simp: execute_command_def Let_def split: prod.splits if_splits)

lemma run_threads_state:
  "run_threads proc k b ts acc st = (r, st') \<Longrightarrow>
     results st' = results st \<and> report st' = report st"
proof (induction ts arbitrary: acc st)
  case Nil
  then show ?case by simp
next
  case (Cons t ts)
  obtain r1 st1 where e: "execute_command proc (RunExecutor k b t True) st = (r1, st1)"
    by (cases "execute_command proc (RunExecutor k b t True) st")
  from execute_command_state [OF e] have s: "results st1 = results st" "report st1 = report st"
    by simp_all
  from Cons.prems e s show ?case
    by (auto split: sum.splits dest: Cons.IH)
qed

lemma stage_loop_stages:
  "stage_loop out i = Inr stages \<Longrightarrow>
     map fst stages = [i ..< i + length stages]
     \<and> (\<forall>sr\<in>set stages. contains (stage_prefix (fst sr)) out
           \<and> extract_run_results out (stage_prefix (fst sr)) False = Inr (snd sr))
     \<and> \<not> contains (stage_prefix (i + length stages)) out"
proof (induction out i arbitrary: stages rule: stage_loop.induct)
  case (1 out i)
  show ?case
  proof (cases "contains (stage_prefix i) out")
    case False
    with "1.prems" show ?thesis
      by (simp add: stage_loop.simps)
  next
    case True
    with "1.prems" obtain r later where r: "extract_run_results out (stage_prefix i) False = Inr r"
      and l: "stage_loop out (Suc i) = Inr later" and s: "stages = (i, r) # later"
      by (subst (asm) stage_loop.simps) (auto split: sum.splits)
    from "1.IH" [OF True r l] True r s show ?thesis
      by (auto simp: upt_rec [of i])
  qed
qed

lemma staged_no_error_line: "\<not> contains '' ERROR '' staged_output"
  unfolding staged_output_def by (subst contains_unlines) simp_all

lemma staged_stage_prefixes:
  "stage_prefix 0 = ''Staged execution: stage 0:''"
  "stage_prefix (Suc 0) = ''Staged execution: stage 1:''"
  by (simp_all add: stage_prefix_def str_nat.simps digit_char_def)

lemma staged_stages_present:
  "contains ''Staged execution: stage 0:'' staged_output"
  "\<not> contains ''Staged execution: stage 1:'' staged_output"
  unfolding staged_output_def by (subst contains_unlines, simp, simp, simp)+

lemma staged_overall_scans:
  "findall False ''Overall TPS: '' '' txn/s'' staged_output = [''20000.0'']"
  "findall False ''Overall GPS: '' '' gas/s'' staged_output = [''10'']"
  "findall False ''Overall effectiveGPS: '' '' gas/s'' staged_output = [''11'']"
  "findall False ''Overall ioGPS: '' '' gas/s'' staged_output = [''12'']"
  "findall False ''Overall executionGPS: '' '' gas/s'' staged_output = [''13'']"
  "findall False ''Overall GPT: '' '' gas/txn'' staged_output = [''14'']"
  "findall True ''Overall Storage fee: '' '' octas/txn'' staged_output = [''15'']"
  "findall False ''Overall output: '' '' bytes/s'' staged_output = [''16'']"
  "findall False ''Overall fraction of total: '' '' in execution'' staged_output = [''0.5'']"
  "findall False ''Overall fraction of execution '' '' in VM'' staged_output = [''0.25'']"
  "findall False ''Overall fraction of total: '' '' in commit'' staged_output = [''0.125'']"
  unfolding staged_output_def
  by (subst findall_unlines, simp, simp, simp add: scan_steps del: findall_from.simps)+

lemma staged_stage_scans:
  "findall False ''Staged execution: stage 0: TPS: '' '' txn/s'' staged_output = [''100.0'']"
  "findall False ''Staged execution: stage 0: GPS: '' '' gas/s'' staged_output = [''1'']"
  "findall False ''Staged execution: stage 0: effectiveGPS: '' '' gas/s'' staged_output
     = [''2'']"
  "findall False ''Staged execution: stage 0: ioGPS: '' '' gas/s'' staged_output = [''3'']"
  "findall False ''Staged execution: stage 0: executionGPS: '' '' gas/s'' staged_output
     = [''4'']"
  "findall False ''Staged execution: stage 0: GPT: '' '' gas/txn'' staged_output = [''5'']"
  "findall True ''Staged execution: stage 0: Storage fee: '' '' octas/txn'' staged_output
     = [''6'']"
  "findall False ''Staged execution: stage 0: output: '' '' bytes/s'' staged_output = [''7'']"
  "findall False ''Staged execution: stage 0: fraction of total: '' '' in execution''
     staged_output = [''0.5'']"
  "findall False ''Staged execution: stage 0: fraction of execution '' '' in VM''
     staged_output = [''0.5'']"
  "findall False ''Staged execution: stage 0: fraction of total: '' '' in commit''
     staged_output = [''0.5'']"
  unfolding staged_output_def
  by (subst findall_unlines, simp, simp, simp add: scan_steps del: findall_from.simps)+

lemma staged_overall_extracted:
  "extract_run_results staged_output ''Overall'' False = Inr staged_overall"
  by (simp add: extract_run_results_def only_metric_def last_metric_def get_only_def last_of_def
      staged_overall_scans float_steps staged_overall_def)

lemma staged_stage_extracted:
  "extract_run_results staged_output ''Staged execution: stage 0:'' False = Inr staged_stage_0"
  by (simp add: extract_run_results_def only_metric_def last_metric_def get_only_def last_of_def
      staged_stage_scans float_steps staged_stage_0_def)

lemma staged_stage_loop: "stage_loop staged_output 0 = Inr [(0, staged_stage_0)]"
proof -
  have "stage_loop staged_output (Suc 0) = Inr []"
    by (subst stage_loop.simps) (simp add: staged_stage_prefixes staged_stages_present)
  then show ?thesis
    by (subst stage_loop.simps)
      (simp add: staged_stage_prefixes staged_stages_present staged_stage_extracted)
qed

lemma large_db_criteria:
  "compute_criteria large_db_env test_large_db Map.empty = Inr criteria_large_db"
  by (simp add: compute_criteria_def test_large_db_def large_db_env_def default_env_def
      NOISE_LOWER_LIMIT_def IS_MAINNET_def NOISE_LOWER_LIMIT_WARN_def NOISE_UPPER_LIMIT_def
      NOISE_UPPER_LIMIT_WARN_def criteria_large_db_def)

lemma staged_test_body:
  "test_body large_db_env staged_proc Map.empty test_large_db initial_state
     = (None,
        \<lparr> launched = [RunExecutor (key test_large_db) 10000 32 False],
          results =
            [\<lparr> instance_key = key test_large_db, single_node_result = staged_overall,
                number_of_threads_results = Map.empty, block_size = 10000,
                instance_expected_tps = 20000 \<rparr>,
             \<lparr> instance_key =
                  \<lparr> transaction_type = ''apt-fa-transfer [stage 0]'',
                    module_working_set_size = 1, executor_type = ''VM'' \<rparr>,
                single_node_result = staged_stage_0,
                number_of_threads_results = Map.empty, block_size = 10000,
                instance_expected_tps = 20000 \<rparr>],
          report = \<lparr> errors = [], warnings = [] \<rparr> \<rparr>)"
proof -
  have env: "MAX_BLOCK_SIZE large_db_env = 10000" "NUMBER_OF_EXECUTION_THREADS large_db_env = 32"
    "EXECUTION_ONLY_NUMBER_OF_THREADS large_db_env = []"
    by (simp_all add: large_db_env_def default_env_def)
  have k: "executor_type (key test_large_db) = ''VM''"
    "transaction_type (key test_large_db) = ''apt-fa-transfer''"
    "module_working_set_size (key test_large_db) = 1"
    by (simp_all add: test_large_db_def)
  have run: "execute_command staged_proc c initial_state
      = (Inr staged_output, initial_state\<lparr>launched := [c]\<rparr>)" for c
    by (simp add: execute_command_def staged_proc_def staged_no_error_line initial_state_def)
  have pass: "classify large_db_env test_large_db criteria_large_db (tps staged_overall)
      \<lparr> errors = [], warnings = [] \<rparr> = \<lparr> errors = [], warnings = [] \<rparr>"
    by (simp add: classify_def criteria_large_db_def staged_overall_def
        SKIP_PERF_IMPROVEMENT_NOTICE_def IS_MAINNET_def large_db_env_def default_env_def)
  have c: "expected_tps criteria_large_db = 20000"
    by (simp add: criteria_large_db_def)
  have i: "results initial_state = []" "report initial_state = \<lparr> errors = [], warnings = [] \<rparr>"
    "launched initial_state = []"
    by (simp_all add: initial_state_def)
  show ?thesis
    by (simp add: test_body_def large_db_criteria env k run staged_overall_extracted
        staged_stage_loop stage_instance_def str_nat.simps digit_char_def py_trunc_def pass c i)
qed

text \<open>
  Claim C6, as stated: each stage gives a measured result that is classified against the
  criteria of its test. It fails: the stage results are appended to \<^verbatim>\<open>results\<close> and
  nothing else is done with them. In the run below, under \<^verbatim>\<open>MAINNET_LARGE_DB\<close>, the
  test of source line 290 measures 20000 tps overall and 100 tps in stage 0. Classified
  against the criteria, 100 tps would be an error; the report of the run is empty.
\<close>

theorem stage_classified_counterexample:
  "test_body large_db_env staged_proc Map.empty test_large_db initial_state
     = (None,
        \<lparr> launched = [RunExecutor (key test_large_db) 10000 32 False],
          results =
            [\<lparr> instance_key = key test_large_db, single_node_result = staged_overall,
                number_of_threads_results = Map.empty, block_size = 10000,
                instance_expected_tps = 20000 \<rparr>,
             \<lparr> instance_key =
                  \<lparr> transaction_type = ''apt-fa-transfer [stage 0]'',
                    module_working_set_size = 1, executor_type = ''VM'' \<rparr>,
                single_node_result = staged_stage_0,
                number_of_threads_results = Map.empty, block_size = 10000,
                instance_expected_tps = 20000 \<rparr>],
          report = \<lparr> errors = [], warnings = [] \<rparr> \<rparr>)
   \<and> compute_criteria large_db_env test_large_db Map.empty = Inr criteria_large_db
   \<and> classify large_db_env test_large_db criteria_large_db (tps staged_stage_0)
        \<lparr> errors = [], warnings = [] \<rparr>
     = \<lparr> errors = [RegressionDetected 100 20000 19600 (key test_large_db)], warnings = [] \<rparr>"
  by (simp add: staged_test_body large_db_criteria)
    (simp add: classify_def criteria_large_db_def staged_stage_0_def test_large_db_def)

text \<open>
  Claim C6, amended. When the body of the loop ends normally for a test, the output of
  its run has the stages 0 to \<open>n - 1\<close> and no stage \<open>n\<close>; each stage gives a measured
  result of its own, appended to \<^verbatim>\<open>results\<close> after the result of the test under the key
  of the test with \<^verbatim>\<open>" [stage N]"\<close> added to the transaction type, and with the
  expected tps of the criteria of the test. The stage results are not classified: what
  the iteration adds to the errors and warnings is the classification of the overall
  tps alone.
\<close>

theorem stage_results_recorded:
  assumes "test_body env proc table test st = (None, st')"
  shows "\<exists>criteria out single stages threads_results.
      compute_criteria env test table = Inr criteria
      \<and> proc (launched st') = (0, out)
      \<and> extract_run_results out ''Overall'' False = Inr single
      \<and> map fst stages = [0 ..< length stages]
      \<and> (\<forall>sr\<in>set stages. contains (stage_prefix (fst sr)) out
            \<and> extract_run_results out (stage_prefix (fst sr)) False = Inr (snd sr))
      \<and> \<not> contains (stage_prefix (length stages)) out
      \<and> results st' = results st
          @ [\<lparr> instance_key = key test, single_node_result = single,
                number_of_threads_results = threads_results,
                block_size = py_trunc (min (expected_tps criteria)
                                          (real_of_int (MAX_BLOCK_SIZE env))),
                instance_expected_tps = expected_tps criteria \<rparr>]
          @ map (\<lambda>sr.
                  \<lparr> instance_key =
                      \<lparr> transaction_type =
                          transaction_type (key test) @ '' [stage '' @ str_nat (fst sr) @ '']'',
                        module_working_set_size = module_working_set_size (key test),
                        executor_type = executor_type (key test) \<rparr>,
                    single_node_result = snd sr,
                    number_of_threads_results = threads_results,
                    block_size = py_trunc (min (expected_tps criteria)
                                              (real_of_int (MAX_BLOCK_SIZE env))),
                    instance_expected_tps = expected_tps criteria \<rparr>) stages
      \<and> report st' = classify env test criteria (tps single) (report st)"
proof -
  from assms obtain criteria where c: "compute_criteria env test table = Inr criteria"
    by (auto simp: test_body_def split: sum.splits)
  define bs where "bs = py_trunc (min (expected_tps criteria) (real_of_int (MAX_BLOCK_SIZE env)))"
  from assms c obtain tr st1 out st2 single stages where
    t: "run_threads proc (key test) bs (EXECUTION_ONLY_NUMBER_OF_THREADS env) Map.empty st
          = (Inr tr, st1)"
    and e: "execute_command proc
              (RunExecutor (key test) bs (NUMBER_OF_EXECUTION_THREADS env) False) st1
          = (Inr out, st2)"
    and x: "extract_run_results out ''Overall'' False = Inr single"
    and l: "stage_loop out 0 = Inr stages"
    and s: "st' = st2\<lparr> results := results st2
                 @ [\<lparr> instance_key = key test, single_node_result = single,
                      number_of_threads_results = tr, block_size = bs,
                      instance_expected_tps = expected_tps criteria \<rparr>]
                 @ map (stage_instance test tr bs criteria) stages,
               report := classify env test criteria (tps single) (report st2) \<rparr>"
    unfolding test_body_def bs_def Let_def
    by (auto split: sum.splits prod.splits if_splits)
  from run_threads_state [OF t] execute_command_state [OF e]
  have same: "results st2 = results st" "report st2 = report st"
    by simp_all
  from execute_command_output [OF e] s have p: "proc (launched st') = (0, out)"
    by simp
  from stage_loop_stages [OF l]
  have st: "map fst stages = [0 ..< length stages]"
    "\<forall>sr\<in>set stages. contains (stage_prefix (fst sr)) out
       \<and> extract_run_results out (stage_prefix (fst sr)) False = Inr (snd sr)"
    "\<not> contains (stage_prefix (length stages)) out"
    by simp_all
  have "map (stage_instance test tr bs criteria) stages
      = map (\<lambda>sr.
                  \<lparr> instance_key =
                      \<lparr> transaction_type =
                          transaction_type (key test) @ '' [stage '' @ str_nat (fst sr) @ '']'',
                        module_working_set_size = module_working_set_size (key test),
                        executor_type = executor_type (key test) \<rparr>,
                    single_node_result = snd sr,
                    number_of_threads_results = tr,
                    block_size = bs,
                    instance_expected_tps = expected_tps criteria \<rparr>) stages"
    by (simp add: stage_instance_def)
  with s same have r: "results st' = results st
          @ [\<lparr> instance_key = key test, single_node_result = single,
                number_of_threads_results = tr, block_size = bs,
                instance_expected_tps = expected_tps criteria \<rparr>]
          @ map (\<lambda>sr.
                  \<lparr> instance_key =
                      \<lparr> transaction_type =
                          transaction_type (key test) @ '' [stage '' @ str_nat (fst sr) @ '']'',
                        module_working_set_size = module_working_set_size (key test),
                        executor_type = executor_type (key test) \<rparr>,
                    single_node_result = snd sr,
                    number_of_threads_results = tr,
                    block_size = bs,
                    instance_expected_tps = expected_tps criteria \<rparr>) stages"
    and rep: "report st' = classify env test criteria (tps single) (report st)"
    by simp_all
  from c p x st r rep show ?thesis
    unfolding bs_def by blast
qed

theorem stage_results_recorded_witness:
  "report (snd (test_body large_db_env staged_proc Map.empty test_large_db initial_state))
     = classify large_db_env test_large_db criteria_large_db 20000 (report initial_state)
   \<and> length (results (snd (test_body large_db_env staged_proc Map.empty test_large_db
                              initial_state))) = 2"
proof -
  let ?st = "snd (test_body large_db_env staged_proc Map.empty test_large_db initial_state)"
  have run: "test_body large_db_env staged_proc Map.empty test_large_db initial_state = (None, ?st)"
    by (simp add: staged_test_body)
  from stage_results_recorded [OF run] obtain criteria out single where
    c: "compute_criteria large_db_env test_large_db Map.empty = Inr criteria"
    and p: "staged_proc (launched ?st) = (0, out)"
    and x: "extract_run_results out ''Overall'' False = Inr single"
    and r: "report ?st = classify large_db_env test_large_db criteria (tps single)
              (report initial_state)"
    by blast
  from c have "criteria = criteria_large_db"
    by (simp add: large_db_criteria)
  moreover from p have "out = staged_output"
    by (simp add: staged_proc_def)
  with x have "tps single = 20000"
    by (auto simp: staged_overall_extracted staged_overall_def)
  ultimately have "report ?st
      = classify large_db_env test_large_db criteria_large_db 20000 (report initial_state)"
    using r by simp
  then show ?thesis
    by (simp add: staged_test_body)
qed

section \<open>Errors that end the run\<close>

lemma calibration_no_op_parsed: "parse_calibration calibration_no_op = Inr table_no_op"
proof -
  have lines: "split_char CHR 0x0A calibration_no_op = [[], row_no_op, []]"
    by (simp add: calibration_no_op_def row_no_op_def)
  have parts: "line_parts row_no_op
      = [''no-op'', ''1'', ''VM'', ''15'', ''0.922'', ''1.06'', ''42737.7'']"
    by (simp add: row_no_op_def line_parts_def strip_def is_space_def
        CALIBRATION_SEPARATOR_def)
  have row: "parse_row [''no-op'', ''1'', ''VM'', ''15'', ''0.922'', ''1.06'', ''42737.7'']
      = Inr (key test_no_op, entry_no_op)"
    by (simp add: parse_row_def py_index_def CALIBRATED_TPS_INDEX_def
        CALIBRATED_COUNT_INDEX_def CALIBRATED_MIN_RATIO_INDEX_def CALIBRATED_MAX_RATIO_INDEX_def
        py_int_def float_steps test_no_op_def entry_no_op_def)
  show ?thesis
    unfolding parse_calibration_def lines
    by (simp add: empty_line_parts parts row table_no_op_def)
qed

lemma warmup_extracted:
  "extract_run_results warmup_output prefix True
     = Inr \<lparr> tps = 201 / 2, gps = 0, effective_gps = 0, io_gps = 0, execution_gps = 0,
             gpt = 0, storage_fee_pt = 0, output_bps = 0, fraction_in_execution = 0,
             fraction_of_execution_in_vm = 0, fraction_in_commit = 0 \<rparr>"
proof -
  have "findall False ''Overall TPS: create_db: account creation: '' '' txn/s'' warmup_output
      = [''100.5'']"
    unfolding warmup_output_def
    by (subst findall_unlines, simp, simp, simp add: scan_steps del: findall_from.simps)
  then show ?thesis
    by (simp add: extract_run_results_def only_metric_def get_only_def float_steps)
qed

lemma warmup_no_error_line: "\<not> contains '' ERROR '' warmup_output"
  unfolding warmup_output_def by (subst contains_unlines) simp_all

lemma run_tests_append:
  "run_tests env proc table (xs @ ys) st =
     (case run_tests env proc table xs st of
        (Some a, st1) \<Rightarrow> (Some a, st1)
      | (None, st1) \<Rightarrow> run_tests env proc table ys st1)"
  by (induction xs arbitrary: st) (auto split: prod.splits option.splits)

text \<open>
  Claim C8, as stated: a selected test with neither an override nor a calibration entry
  raises the configuration error before any process is launched. It fails: the
  assertion is in the loop over the tests, after the build and the warmup. In the run
  below (with \<^verbatim>\<open>DISABLE_FA_APT\<close> and \<^verbatim>\<open>SKIP_MOVE_E2E\<close> set) the native test of source
  line 213 has no row in the table, and two commands have been launched when the
  assertion fails.
\<close>

theorem configuration_error_counterexample:
  "main native_env warmup_proc calibration_no_op [test_native]
     = \<lparr> exit_status = 1, ended = Some (Raised AssertionError), benchmark_failed = False,
         final = \<lparr> launched = [CargoBuild ''aptos-executor-benchmark'', CreateDb],
                   results = [warmup_instance],
                   report = \<lparr> errors = [], warnings = [] \<rparr> \<rparr> \<rparr>"
proof -
  have run: "execute_command warmup_proc c st
      = (Inr warmup_output, st\<lparr>launched := launched st @ [c]\<rparr>)" for c st
    by (simp add: execute_command_def warmup_proc_def warmup_no_error_line)
  have crit: "compute_criteria native_env test_native table_no_op = Inl AssertionError"
    by (simp add: compute_criteria_def test_native_def table_no_op_def test_no_op_def)
  have flow: "flow_in (flow_value (SELECTED_FLOW native_env)) (included_in test_native)"
    by (simp add: native_env_def default_env_def test_native_def flow_in_def
        LAND_BLOCKING_AND_C_def flow_union_def)
  have env: "SOURCE native_env = ''LOCAL''" "SKIP_MOVE_E2E native_env"
    "\<not> SKIP_NATIVE native_env" "MAX_BLOCK_SIZE native_env = 10000"
    by (simp_all add: native_env_def default_env_def)
  show ?thesis
    by (simp add: main_def move_e2e_phase_def performance_phase_def env
        calibration_no_op_parsed run warmup_extracted run_test_def flow test_body_def crit
        initial_state_def warmup_instance_def)
qed

text \<open>
  Claim C8, amended. For an executed test with neither an override nor a calibration
  entry the configuration error is raised when the loop reaches the test, before any
  process is launched for it: the iteration leaves the state as it was. The builds,
  the warmup and the tests before it have run by then. The error ends the loop, so no
  later test runs, and nothing catches it: the run ends with it and the exit status 1.
\<close>

theorem configuration_error_at_test:
  assumes "executed env test"
    and "override_tps test = None"
    and "table (key test) = None"
  shows "run_test env proc table test st = (Some (Raised AssertionError), st)
     \<and> run_tests env proc table (earlier @ test # later) st
         = (case run_tests env proc table earlier st of
              (Some a, st1) \<Rightarrow> (Some a, st1)
            | (None, st1) \<Rightarrow> (Some (Raised AssertionError), st1))
     \<and> (SOURCE env \<in> set [''ADHOC'', ''CI'', ''LOCAL'']
          \<and> move_e2e_phase env proc initial_state = (Inr failed, st1)
          \<and> performance_phase env proc CALIBRATION TESTS st1
              = (Some (Raised AssertionError), st2)
        \<longrightarrow> main env proc CALIBRATION TESTS
              = \<lparr> exit_status = 1, ended = Some (Raised AssertionError),
                  benchmark_failed = failed, final = st2 \<rparr>)"
proof -
  have one: "run_test env proc table test s = (Some (Raised AssertionError), s)" for s
    using assms by (simp add: run_test_def executed_def test_body_def compute_criteria_def
        split: if_splits)
  then have two: "run_tests env proc table (test # later) s = (Some (Raised AssertionError), s)"
    for s
    by simp
  have "run_tests env proc table (earlier @ test # later) st
         = (case run_tests env proc table earlier st of
              (Some a, st1) \<Rightarrow> (Some a, st1)
            | (None, st1) \<Rightarrow> (Some (Raised AssertionError), st1))"
    by (simp add: run_tests_append two del: run_tests.simps split: prod.splits option.splits)
  with one show ?thesis
    by (simp add: main_def)
qed

theorem configuration_error_at_test_witness:
  "executed native_env test_native \<and> override_tps test_native = None
   \<and> table_no_op (key test_native) = None
   \<and> run_test native_env warmup_proc table_no_op test_native initial_state
       = (Some (Raised AssertionError), initial_state)"
proof -
  have h: "executed native_env test_native" "override_tps test_native = None"
    "table_no_op (key test_native) = None"
    by (simp_all add: executed_def native_env_def default_env_def test_native_def flow_in_def
        LAND_BLOCKING_AND_C_def flow_union_def table_no_op_def test_no_op_def)
  from configuration_error_at_test
    [of native_env test_native table_no_op warmup_proc initial_state] h
  show ?thesis
    by simp
qed

section \<open>The exit status\<close>

text \<open>Every way in which a run is cut short has the exit status 1.\<close>

lemma execute_command_abort:
  "execute_command proc cmd st = (Inl a, st') \<Longrightarrow> status_of_abort a = 1"
  by (auto simp: execute_command_def Let_def split: prod.splits if_splits)

lemma run_threads_abort:
  "run_threads proc k b ts acc st = (Inl a, st') \<Longrightarrow> status_of_abort a = 1"
proof (induction ts arbitrary: acc st)
  case Nil
  then show ?case by simp
next
  case (Cons t ts)
  then show ?case
    by (auto split: prod.splits sum.splits dest: execute_command_abort)
qed

lemma test_body_abort:
  "test_body env proc table test st = (Some a, st') \<Longrightarrow> status_of_abort a = 1"
  unfolding test_body_def Let_def
  by (auto split: sum.splits prod.splits if_splits
      dest: execute_command_abort run_threads_abort)

lemma run_tests_abort:
  "run_tests env proc table tests st = (Some a, st') \<Longrightarrow> status_of_abort a = 1"
proof (induction tests arbitrary: st)
  case Nil
  then show ?case by simp
next
  case (Cons t ts)
  then show ?case
    by (auto simp: run_test_def split: prod.splits option.splits if_splits
        dest: test_body_abort)
qed

lemma performance_phase_abort:
  "performance_phase env proc CALIBRATION TESTS st = (Some a, st') \<Longrightarrow> status_of_abort a = 1"
  unfolding performance_phase_def
  by (auto split: sum.splits prod.splits dest: execute_command_abort run_tests_abort)

lemma move_e2e_phase_abort:
  "move_e2e_phase env proc st = (Inl a, st') \<Longrightarrow> status_of_abort a = 1"
  unfolding move_e2e_phase_def
  by (auto split: sum.splits prod.splits if_splits dest: execute_command_abort)

lemma main_cases:
  obtains (source) "SOURCE env \<notin> set [''ADHOC'', ''CI'', ''LOCAL'']"
      "main env proc CALIBRATION TESTS
         = \<lparr> exit_status = 1, ended = Some (SystemExit 1), benchmark_failed = False,
             final = initial_state \<rparr>"
  | (prerequisite) a st1 where "move_e2e_phase env proc initial_state = (Inl a, st1)"
      "main env proc CALIBRATION TESTS
         = \<lparr> exit_status = status_of_abort a, ended = Some a, benchmark_failed = False,
             final = st1 \<rparr>"
  | (aborted) failed st1 a st2 where "move_e2e_phase env proc initial_state = (Inr failed, st1)"
      "performance_phase env proc CALIBRATION TESTS st1 = (Some a, st2)"
      "main env proc CALIBRATION TESTS
         = \<lparr> exit_status = status_of_abort a, ended = Some a, benchmark_failed = failed,
             final = st2 \<rparr>"
  | (finished) failed st1 st2 where "move_e2e_phase env proc initial_state = (Inr failed, st1)"
      "performance_phase env proc CALIBRATION TESTS st1 = (None, st2)"
      "main env proc CALIBRATION TESTS
         = \<lparr> exit_status = final_exit (report st2) failed, ended = None,
             benchmark_failed = failed, final = st2 \<rparr>"
proof (cases "SOURCE env \<notin> set [''ADHOC'', ''CI'', ''LOCAL'']")
  case True
  then show ?thesis
    by (intro source) (simp_all add: main_def)
next
  case False
  show ?thesis
  proof (cases "move_e2e_phase env proc initial_state")
    case (Pair r st1)
    show ?thesis
    proof (cases r)
      case (Inl a)
      with Pair False show ?thesis
        by (intro prerequisite [of a st1]) (simp_all add: main_def)
    next
      case (Inr failed)
      show ?thesis
      proof (cases "performance_phase env proc CALIBRATION TESTS st1")
        case p: (Pair e st2)
        show ?thesis
        proof (cases e)
          case None
          with p Pair Inr False show ?thesis
            by (intro finished [of failed st1 st2]) (simp_all add: main_def)
        next
          case (Some a)
          with p Pair Inr False show ?thesis
            by (intro aborted [of failed st1 a st2]) (simp_all add: main_def)
        qed
      qed
    qed
  qed
qed

text \<open>
  Claim C9, as stated: the exit status is non-zero if and only if an unwaived
  classification error was recorded or the prerequisite benchmark failed. It fails for a
  run that a fatal error cuts short: with \<^verbatim>\<open>SKIP_MOVE_E2E\<close> set and a build that returns
  the code 1, the exit status is 1, no error was recorded and no prerequisite benchmark
  failed.
\<close>

theorem exit_status_counterexample:
  "main no_e2e_env failing_proc calibration_no_op [test_no_op]
     = \<lparr> exit_status = 1, ended = Some (Raised CmdExecutionError), benchmark_failed = False,
         final = \<lparr> launched = [CargoBuild ''aptos-executor-benchmark''], results = [],
                   report = \<lparr> errors = [], warnings = [] \<rparr> \<rparr> \<rparr>"
  by (simp add: main_def move_e2e_phase_def performance_phase_def no_e2e_env_def
      default_env_def calibration_no_op_parsed execute_command_def failing_proc_def
      initial_state_def)

text \<open>
  Claim C9, amended. The exit status is non-zero if and only if an error was recorded,
  or the prerequisite benchmark failed, or the run was cut short by a fatal error (a
  command that fails or logs an error line, an extraction error, a configuration error,
  an unrecognized \<^verbatim>\<open>SOURCE\<close>). Only the classification of a test that is not waived
  records an error, and the warnings do not enter the exit status. When the prerequisite
  benchmark fails after its build, the run ends at once with status 1 under
  \<^verbatim>\<open>LAND_BLOCKING\<close>; under any other flow the failure is recorded, the run goes on
  with the performance tests as it would have otherwise, and its exit status is non-zero.
\<close>

theorem exit_status_iff:
  "(exit_status (main env proc CALIBRATION TESTS) \<noteq> 0 \<longleftrightarrow>
      errors (report (final (main env proc CALIBRATION TESTS))) \<noteq> []
      \<or> benchmark_failed (main env proc CALIBRATION TESTS)
      \<or> ended (main env proc CALIBRATION TESTS) \<noteq> None)
   \<and> final_exit (rep\<lparr>warnings := w\<rparr>) failed = final_exit rep failed
   \<and> (waived test \<longrightarrow> errors (classify env test c v rep) = errors rep)
   \<and> (SOURCE env \<in> set [''ADHOC'', ''CI'', ''LOCAL''] \<and> \<not> SKIP_MOVE_E2E env
        \<and> execute_command proc (CargoBuild ''aptos-move-e2e-benchmark'') initial_state
            = (Inr built, st1)
        \<and> execute_command proc MoveE2EBenchmark st1 = (Inl a, st2)
      \<longrightarrow> (SELECTED_FLOW env = LAND_BLOCKING \<longrightarrow>
             main env proc CALIBRATION TESTS
               = \<lparr> exit_status = 1, ended = Some (SystemExit 1), benchmark_failed = False,
                   final = st2 \<rparr>)
          \<and> (SELECTED_FLOW env \<noteq> LAND_BLOCKING \<longrightarrow>
               benchmark_failed (main env proc CALIBRATION TESTS)
               \<and> exit_status (main env proc CALIBRATION TESTS) \<noteq> 0
               \<and> ended (main env proc CALIBRATION TESTS)
                   = fst (performance_phase env proc CALIBRATION TESTS st2)
               \<and> final (main env proc CALIBRATION TESTS)
                   = snd (performance_phase env proc CALIBRATION TESTS st2)))"
proof (intro conjI impI)
  show "exit_status (main env proc CALIBRATION TESTS) \<noteq> 0 \<longleftrightarrow>
      errors (report (final (main env proc CALIBRATION TESTS))) \<noteq> []
      \<or> benchmark_failed (main env proc CALIBRATION TESTS)
      \<or> ended (main env proc CALIBRATION TESTS) \<noteq> None"
  proof (cases rule: main_cases [of env proc CALIBRATION TESTS])
    case source
    then show ?thesis by simp
  next
    case (prerequisite a st1)
    with move_e2e_phase_abort [OF prerequisite(1)] show ?thesis by simp
  next
    case (aborted failed st1 a st2)
    with performance_phase_abort [OF aborted(2)] show ?thesis by simp
  next
    case (finished failed st1 st2)
    then show ?thesis by (simp add: final_exit_def)
  qed
next
  show "final_exit (rep\<lparr>warnings := w\<rparr>) failed = final_exit rep failed"
    by (simp add: final_exit_def)
next
  assume "waived test"
  then show "errors (classify env test c v rep) = errors rep"
    by (simp add: classify_def Let_def)
next
  assume a: "SOURCE env \<in> set [''ADHOC'', ''CI'', ''LOCAL''] \<and> \<not> SKIP_MOVE_E2E env
        \<and> execute_command proc (CargoBuild ''aptos-move-e2e-benchmark'') initial_state
            = (Inr built, st1)
        \<and> execute_command proc MoveE2EBenchmark st1 = (Inl a, st2)"
    and "SELECTED_FLOW env = LAND_BLOCKING"
  then show "main env proc CALIBRATION TESTS
               = \<lparr> exit_status = 1, ended = Some (SystemExit 1), benchmark_failed = False,
                   final = st2 \<rparr>"
    by (simp add: main_def move_e2e_phase_def)
next
  assume a: "SOURCE env \<in> set [''ADHOC'', ''CI'', ''LOCAL''] \<and> \<not> SKIP_MOVE_E2E env
        \<and> execute_command proc (CargoBuild ''aptos-move-e2e-benchmark'') initial_state
            = (Inr built, st1)
        \<and> execute_command proc MoveE2EBenchmark st1 = (Inl a, st2)"
    and f: "SELECTED_FLOW env \<noteq> LAND_BLOCKING"
  then have m: "move_e2e_phase env proc initial_state = (Inr True, st2)"
    by (simp add: move_e2e_phase_def)
  obtain e st3 where p: "performance_phase env proc CALIBRATION TESTS st2 = (e, st3)"
    by (cases "performance_phase env proc CALIBRATION TESTS st2")
  have main: "main env proc CALIBRATION TESTS
      = \<lparr> exit_status = (case e of Some x \<Rightarrow> status_of_abort x
                                 | None \<Rightarrow> final_exit (report st3) True),
          ended = e, benchmark_failed = True, final = st3 \<rparr>"
    using a m p by (cases e) (simp_all add: main_def)
  have "(case e of Some x \<Rightarrow> status_of_abort x | None \<Rightarrow> final_exit (report st3) True) \<noteq> 0"
    using performance_phase_abort [of env proc CALIBRATION TESTS st2 _ st3] p
    by (cases e) (simp_all add: final_exit_def)
  with main p show "benchmark_failed (main env proc CALIBRATION TESTS)"
    "exit_status (main env proc CALIBRATION TESTS) \<noteq> 0"
    "ended (main env proc CALIBRATION TESTS)
       = fst (performance_phase env proc CALIBRATION TESTS st2)"
    "final (main env proc CALIBRATION TESTS)
       = snd (performance_phase env proc CALIBRATION TESTS st2)"
    by simp_all
qed

theorem exit_status_iff_witness:
  "main default_env e2e_failing_proc calibration_no_op [test_no_op]
     = \<lparr> exit_status = 1, ended = Some (SystemExit 1), benchmark_failed = False,
         final = \<lparr> launched = [CargoBuild ''aptos-move-e2e-benchmark'', MoveE2EBenchmark],
                   results = [], report = \<lparr> errors = [], warnings = [] \<rparr> \<rparr> \<rparr>
   \<and> benchmark_failed (main agg_v2_env e2e_failing_proc calibration_no_op [test_no_op])
   \<and> exit_status (main agg_v2_env e2e_failing_proc calibration_no_op [test_no_op]) \<noteq> 0"
proof -
  let ?st1 = "initial_state\<lparr>launched := [CargoBuild ''aptos-move-e2e-benchmark'']\<rparr>"
  let ?st2 = "initial_state\<lparr>launched :=
      [CargoBuild ''aptos-move-e2e-benchmark'', MoveE2EBenchmark]\<rparr>"
  have built: "execute_command e2e_failing_proc (CargoBuild ''aptos-move-e2e-benchmark'')
      initial_state = (Inr warmup_output, ?st1)"
    by (simp add: execute_command_def e2e_failing_proc_def warmup_no_error_line
        initial_state_def)
  have failed: "execute_command e2e_failing_proc MoveE2EBenchmark ?st1
      = (Inl (Raised CmdExecutionError), ?st2)"
    by (simp add: execute_command_def e2e_failing_proc_def initial_state_def)
  have env: "SOURCE default_env \<in> set [''ADHOC'', ''CI'', ''LOCAL'']"
    "\<not> SKIP_MOVE_E2E default_env" "SELECTED_FLOW default_env = LAND_BLOCKING"
    "SOURCE agg_v2_env \<in> set [''ADHOC'', ''CI'', ''LOCAL'']"
    "\<not> SKIP_MOVE_E2E agg_v2_env" "SELECTED_FLOW agg_v2_env \<noteq> LAND_BLOCKING"
    by (simp_all add: default_env_def agg_v2_env_def)
  have strict: "main default_env e2e_failing_proc calibration_no_op [test_no_op]
      = \<lparr> exit_status = 1, ended = Some (SystemExit 1), benchmark_failed = False,
          final = ?st2 \<rparr>"
    using built failed env(1-3)
      exit_status_iff [where env = default_env and proc = e2e_failing_proc
        and CALIBRATION = calibration_no_op and TESTS = "[test_no_op]"
        and built = warmup_output and ?st1.0 = ?st1 and a = "Raised CmdExecutionError"
        and ?st2.0 = ?st2]
    by blast
  have lenient: "benchmark_failed (main agg_v2_env e2e_failing_proc calibration_no_op [test_no_op])
      \<and> exit_status (main agg_v2_env e2e_failing_proc calibration_no_op [test_no_op]) \<noteq> 0"
    using built failed env(4-6)
      exit_status_iff [where env = agg_v2_env and proc = e2e_failing_proc
        and CALIBRATION = calibration_no_op and TESTS = "[test_no_op]"
        and built = warmup_output and ?st1.0 = ?st1 and a = "Raised CmdExecutionError"
        and ?st2.0 = ?st2]
    by blast
  from strict lenient show ?thesis
    by (simp add: initial_state_def)
qed

end
